theory Spec2Isabelle
  imports Main "HOL-Library.Code_Target_Nat"
begin

section \<open>Text\<close>

text \<open>
  A Python \<open>str\<close> is the list of its code points; \<open>ustr\<close> gives the code points of a
  literal written in ASCII. The character classes are those of the Unicode database
  14.0 that CPython 3.11 carries:
  \<^item> \<open>is_space\<close>: the code points that \<open>str.strip\<close>, \<open>str.isspace\<close> and the pattern \<open>\s\<close> treat
    as whitespace;
  \<^item> \<open>is_decimal\<close>: the decimal digits, which the pattern \<open>\d\<close> matches and \<open>int\<close> reads;
    they come in runs of ten, \<open>decimal_starts\<close> lists the zero of each run and
    \<open>decimal_value\<close> is the digit a code point stands for;
  \<^item> \<open>is_digit\<close>: what \<open>str.isdigit\<close> accepts, the decimal digits and the other digit
    characters (superscripts, circled digits and so on) of \<open>digit_runs\<close>;
  \<^item> \<open>unicode_upper\<close>: what \<open>str.upper\<close> makes of one code point, up to three code
    points; \<open>upper_special\<close> holds the expansions to several code points and
    \<open>upper_ranges\<close> the simple mappings as \<open>(first, last, step, image of first)\<close>.
\<close>

type_synonym str = "nat list"

definition ustr :: "string \<Rightarrow> str" where
  "ustr s = map of_char s"

definition whitespace_points :: "nat list" where
  "whitespace_points =
    [0x9, 0xA, 0xB, 0xC, 0xD, 0x1C, 0x1D, 0x1E, 0x1F, 0x20, 0x85, 0xA0, 0x1680, 0x2000,
     0x2001, 0x2002, 0x2003, 0x2004, 0x2005, 0x2006, 0x2007, 0x2008, 0x2009, 0x200A,
     0x2028, 0x2029, 0x202F, 0x205F, 0x3000]"

definition is_space :: "nat \<Rightarrow> bool" where
  "is_space c = (c \<in> set whitespace_points)"

definition decimal_starts :: "nat list" where
  "decimal_starts =
    [0x30, 0x660, 0x6F0, 0x7C0, 0x966, 0x9E6, 0xA66, 0xAE6, 0xB66, 0xBE6, 0xC66, 0xCE6,
     0xD66, 0xDE6, 0xE50, 0xED0, 0xF20, 0x1040, 0x1090, 0x17E0, 0x1810, 0x1946, 0x19D0,
     0x1A80, 0x1A90, 0x1B50, 0x1BB0, 0x1C40, 0x1C50, 0xA620, 0xA8D0, 0xA900, 0xA9D0,
     0xA9F0, 0xAA50, 0xABF0, 0xFF10, 0x104A0, 0x10D30, 0x11066, 0x110F0, 0x11136, 0x111D0,
     0x112F0, 0x11450, 0x114D0, 0x11650, 0x116C0, 0x11730, 0x118E0, 0x11950, 0x11C50,
     0x11D50, 0x11DA0, 0x16A60, 0x16AC0, 0x16B50, 0x1D7CE, 0x1D7D8, 0x1D7E2, 0x1D7EC,
     0x1D7F6, 0x1E140, 0x1E2F0, 0x1E950, 0x1FBF0]"

definition decimal_value :: "nat \<Rightarrow> nat option" where
  "decimal_value c = map_option (\<lambda>s. c - s) (find (\<lambda>s. s \<le> c \<and> c < s + 10) decimal_starts)"

definition is_decimal :: "nat \<Rightarrow> bool" where
  "is_decimal c = (decimal_value c \<noteq> None)"

definition digit_runs :: "(nat \<times> nat) list" where
  "digit_runs =
    [(0xB2, 0xB3), (0xB9, 0xB9), (0x1369, 0x1371), (0x19DA, 0x19DA), (0x2070, 0x2070),
     (0x2074, 0x2079), (0x2080, 0x2089), (0x2460, 0x2468), (0x2474, 0x247C),
     (0x2488, 0x2490), (0x24EA, 0x24EA), (0x24F5, 0x24FD), (0x24FF, 0x24FF),
     (0x2776, 0x277E), (0x2780, 0x2788), (0x278A, 0x2792), (0x10A40, 0x10A43),
     (0x10E60, 0x10E68), (0x11052, 0x1105A), (0x1F100, 0x1F10A)]"

definition is_digit :: "nat \<Rightarrow> bool" where
  "is_digit c = (is_decimal c \<or> list_ex (\<lambda>(lo, hi). lo \<le> c \<and> c \<le> hi) digit_runs)"

text \<open>The class \<open>[A-Z]\<close> of a pattern: the code points 65 to 90.\<close>

definition is_upper_az :: "nat \<Rightarrow> bool" where
  "is_upper_az c = (65 \<le> c \<and> c \<le> 90)"

definition upper_special :: "(nat \<times> nat list) list" where
  "upper_special =
    [(0xDF, [0x53, 0x53]), (0x149, [0x2BC, 0x4E]), (0x1F0, [0x4A, 0x30C]),
     (0x390, [0x399, 0x308, 0x301]), (0x3B0, [0x3A5, 0x308, 0x301]),
     (0x587, [0x535, 0x552]), (0x1E96, [0x48, 0x331]), (0x1E97, [0x54, 0x308]),
     (0x1E98, [0x57, 0x30A]), (0x1E99, [0x59, 0x30A]), (0x1E9A, [0x41, 0x2BE]),
     (0x1F50, [0x3A5, 0x313]), (0x1F52, [0x3A5, 0x313, 0x300]),
     (0x1F54, [0x3A5, 0x313, 0x301]), (0x1F56, [0x3A5, 0x313, 0x342]),
     (0x1F80, [0x1F08, 0x399]), (0x1F81, [0x1F09, 0x399]), (0x1F82, [0x1F0A, 0x399]),
     (0x1F83, [0x1F0B, 0x399]), (0x1F84, [0x1F0C, 0x399]), (0x1F85, [0x1F0D, 0x399]),
     (0x1F86, [0x1F0E, 0x399]), (0x1F87, [0x1F0F, 0x399]), (0x1F88, [0x1F08, 0x399]),
     (0x1F89, [0x1F09, 0x399]), (0x1F8A, [0x1F0A, 0x399]), (0x1F8B, [0x1F0B, 0x399]),
     (0x1F8C, [0x1F0C, 0x399]), (0x1F8D, [0x1F0D, 0x399]), (0x1F8E, [0x1F0E, 0x399]),
     (0x1F8F, [0x1F0F, 0x399]), (0x1F90, [0x1F28, 0x399]), (0x1F91, [0x1F29, 0x399]),
     (0x1F92, [0x1F2A, 0x399]), (0x1F93, [0x1F2B, 0x399]), (0x1F94, [0x1F2C, 0x399]),
     (0x1F95, [0x1F2D, 0x399]), (0x1F96, [0x1F2E, 0x399]), (0x1F97, [0x1F2F, 0x399]),
     (0x1F98, [0x1F28, 0x399]), (0x1F99, [0x1F29, 0x399]), (0x1F9A, [0x1F2A, 0x399]),
     (0x1F9B, [0x1F2B, 0x399]), (0x1F9C, [0x1F2C, 0x399]), (0x1F9D, [0x1F2D, 0x399]),
     (0x1F9E, [0x1F2E, 0x399]), (0x1F9F, [0x1F2F, 0x399]), (0x1FA0, [0x1F68, 0x399]),
     (0x1FA1, [0x1F69, 0x399]), (0x1FA2, [0x1F6A, 0x399]), (0x1FA3, [0x1F6B, 0x399]),
     (0x1FA4, [0x1F6C, 0x399]), (0x1FA5, [0x1F6D, 0x399]), (0x1FA6, [0x1F6E, 0x399]),
     (0x1FA7, [0x1F6F, 0x399]), (0x1FA8, [0x1F68, 0x399]), (0x1FA9, [0x1F69, 0x399]),
     (0x1FAA, [0x1F6A, 0x399]), (0x1FAB, [0x1F6B, 0x399]), (0x1FAC, [0x1F6C, 0x399]),
     (0x1FAD, [0x1F6D, 0x399]), (0x1FAE, [0x1F6E, 0x399]), (0x1FAF, [0x1F6F, 0x399]),
     (0x1FB2, [0x1FBA, 0x399]), (0x1FB3, [0x391, 0x399]), (0x1FB4, [0x386, 0x399]),
     (0x1FB6, [0x391, 0x342]), (0x1FB7, [0x391, 0x342, 0x399]), (0x1FBC, [0x391, 0x399]),
     (0x1FC2, [0x1FCA, 0x399]), (0x1FC3, [0x397, 0x399]), (0x1FC4, [0x389, 0x399]),
     (0x1FC6, [0x397, 0x342]), (0x1FC7, [0x397, 0x342, 0x399]), (0x1FCC, [0x397, 0x399]),
     (0x1FD2, [0x399, 0x308, 0x300]), (0x1FD3, [0x399, 0x308, 0x301]),
     (0x1FD6, [0x399, 0x342]), (0x1FD7, [0x399, 0x308, 0x342]),
     (0x1FE2, [0x3A5, 0x308, 0x300]), (0x1FE3, [0x3A5, 0x308, 0x301]),
     (0x1FE4, [0x3A1, 0x313]), (0x1FE6, [0x3A5, 0x342]), (0x1FE7, [0x3A5, 0x308, 0x342]),
     (0x1FF2, [0x1FFA, 0x399]), (0x1FF3, [0x3A9, 0x399]), (0x1FF4, [0x38F, 0x399]),
     (0x1FF6, [0x3A9, 0x342]), (0x1FF7, [0x3A9, 0x342, 0x399]), (0x1FFC, [0x3A9, 0x399]),
     (0xFB00, [0x46, 0x46]), (0xFB01, [0x46, 0x49]), (0xFB02, [0x46, 0x4C]),
     (0xFB03, [0x46, 0x46, 0x49]), (0xFB04, [0x46, 0x46, 0x4C]), (0xFB05, [0x53, 0x54]),
     (0xFB06, [0x53, 0x54]), (0xFB13, [0x544, 0x546]), (0xFB14, [0x544, 0x535]),
     (0xFB15, [0x544, 0x53B]), (0xFB16, [0x54E, 0x546]), (0xFB17, [0x544, 0x53D])]"

definition upper_ranges :: "(nat \<times> nat \<times> nat \<times> nat) list" where
  "upper_ranges =
    [(0x61, 0x7A, 1, 0x41), (0xB5, 0xB5, 1, 0x39C), (0xE0, 0xF6, 1, 0xC0),
     (0xF8, 0xFE, 1, 0xD8), (0xFF, 0xFF, 1, 0x178), (0x101, 0x12F, 2, 0x100),
     (0x131, 0x131, 1, 0x49), (0x133, 0x137, 2, 0x132), (0x13A, 0x148, 2, 0x139),
     (0x14B, 0x177, 2, 0x14A), (0x17A, 0x17E, 2, 0x179), (0x17F, 0x17F, 1, 0x53),
     (0x180, 0x180, 1, 0x243), (0x183, 0x185, 2, 0x182), (0x188, 0x188, 1, 0x187),
     (0x18C, 0x18C, 1, 0x18B), (0x192, 0x192, 1, 0x191), (0x195, 0x195, 1, 0x1F6),
     (0x199, 0x199, 1, 0x198), (0x19A, 0x19A, 1, 0x23D), (0x19E, 0x19E, 1, 0x220),
     (0x1A1, 0x1A5, 2, 0x1A0), (0x1A8, 0x1A8, 1, 0x1A7), (0x1AD, 0x1AD, 1, 0x1AC),
     (0x1B0, 0x1B0, 1, 0x1AF), (0x1B4, 0x1B6, 2, 0x1B3), (0x1B9, 0x1B9, 1, 0x1B8),
     (0x1BD, 0x1BD, 1, 0x1BC), (0x1BF, 0x1BF, 1, 0x1F7), (0x1C5, 0x1C5, 1, 0x1C4),
     (0x1C6, 0x1C6, 1, 0x1C4), (0x1C8, 0x1C8, 1, 0x1C7), (0x1C9, 0x1C9, 1, 0x1C7),
     (0x1CB, 0x1CB, 1, 0x1CA), (0x1CC, 0x1CC, 1, 0x1CA), (0x1CE, 0x1DC, 2, 0x1CD),
     (0x1DD, 0x1DD, 1, 0x18E), (0x1DF, 0x1EF, 2, 0x1DE), (0x1F2, 0x1F2, 1, 0x1F1),
     (0x1F3, 0x1F3, 1, 0x1F1), (0x1F5, 0x1F5, 1, 0x1F4), (0x1F9, 0x21F, 2, 0x1F8),
     (0x223, 0x233, 2, 0x222), (0x23C, 0x23C, 1, 0x23B), (0x23F, 0x240, 1, 0x2C7E),
     (0x242, 0x242, 1, 0x241), (0x247, 0x24F, 2, 0x246), (0x250, 0x250, 1, 0x2C6F),
     (0x251, 0x251, 1, 0x2C6D), (0x252, 0x252, 1, 0x2C70), (0x253, 0x253, 1, 0x181),
     (0x254, 0x254, 1, 0x186), (0x256, 0x257, 1, 0x189), (0x259, 0x259, 1, 0x18F),
     (0x25B, 0x25B, 1, 0x190), (0x25C, 0x25C, 1, 0xA7AB), (0x260, 0x260, 1, 0x193),
     (0x261, 0x261, 1, 0xA7AC), (0x263, 0x263, 1, 0x194), (0x265, 0x265, 1, 0xA78D),
     (0x266, 0x266, 1, 0xA7AA), (0x268, 0x268, 1, 0x197), (0x269, 0x269, 1, 0x196),
     (0x26A, 0x26A, 1, 0xA7AE), (0x26B, 0x26B, 1, 0x2C62), (0x26C, 0x26C, 1, 0xA7AD),
     (0x26F, 0x26F, 1, 0x19C), (0x271, 0x271, 1, 0x2C6E), (0x272, 0x272, 1, 0x19D),
     (0x275, 0x275, 1, 0x19F), (0x27D, 0x27D, 1, 0x2C64), (0x280, 0x280, 1, 0x1A6),
     (0x282, 0x282, 1, 0xA7C5), (0x283, 0x283, 1, 0x1A9), (0x287, 0x287, 1, 0xA7B1),
     (0x288, 0x288, 1, 0x1AE), (0x289, 0x289, 1, 0x244), (0x28A, 0x28B, 1, 0x1B1),
     (0x28C, 0x28C, 1, 0x245), (0x292, 0x292, 1, 0x1B7), (0x29D, 0x29D, 1, 0xA7B2),
     (0x29E, 0x29E, 1, 0xA7B0), (0x345, 0x345, 1, 0x399), (0x371, 0x373, 2, 0x370),
     (0x377, 0x377, 1, 0x376), (0x37B, 0x37D, 1, 0x3FD), (0x3AC, 0x3AC, 1, 0x386),
     (0x3AD, 0x3AF, 1, 0x388), (0x3B1, 0x3C1, 1, 0x391), (0x3C2, 0x3C2, 1, 0x3A3),
     (0x3C3, 0x3CB, 1, 0x3A3), (0x3CC, 0x3CC, 1, 0x38C), (0x3CD, 0x3CE, 1, 0x38E),
     (0x3D0, 0x3D0, 1, 0x392), (0x3D1, 0x3D1, 1, 0x398), (0x3D5, 0x3D5, 1, 0x3A6),
     (0x3D6, 0x3D6, 1, 0x3A0), (0x3D7, 0x3D7, 1, 0x3CF), (0x3D9, 0x3EF, 2, 0x3D8),
     (0x3F0, 0x3F0, 1, 0x39A), (0x3F1, 0x3F1, 1, 0x3A1), (0x3F2, 0x3F2, 1, 0x3F9),
     (0x3F3, 0x3F3, 1, 0x37F), (0x3F5, 0x3F5, 1, 0x395), (0x3F8, 0x3F8, 1, 0x3F7),
     (0x3FB, 0x3FB, 1, 0x3FA), (0x430, 0x44F, 1, 0x410), (0x450, 0x45F, 1, 0x400),
     (0x461, 0x481, 2, 0x460), (0x48B, 0x4BF, 2, 0x48A), (0x4C2, 0x4CE, 2, 0x4C1),
     (0x4CF, 0x4CF, 1, 0x4C0), (0x4D1, 0x52F, 2, 0x4D0), (0x561, 0x586, 1, 0x531),
     (0x10D0, 0x10FA, 1, 0x1C90), (0x10FD, 0x10FF, 1, 0x1CBD), (0x13F8, 0x13FD, 1, 0x13F0),
     (0x1C80, 0x1C80, 1, 0x412), (0x1C81, 0x1C81, 1, 0x414), (0x1C82, 0x1C82, 1, 0x41E),
     (0x1C83, 0x1C84, 1, 0x421), (0x1C85, 0x1C85, 1, 0x422), (0x1C86, 0x1C86, 1, 0x42A),
     (0x1C87, 0x1C87, 1, 0x462), (0x1C88, 0x1C88, 1, 0xA64A), (0x1D79, 0x1D79, 1, 0xA77D),
     (0x1D7D, 0x1D7D, 1, 0x2C63), (0x1D8E, 0x1D8E, 1, 0xA7C6), (0x1E01, 0x1E95, 2, 0x1E00),
     (0x1E9B, 0x1E9B, 1, 0x1E60), (0x1EA1, 0x1EFF, 2, 0x1EA0), (0x1F00, 0x1F07, 1, 0x1F08),
     (0x1F10, 0x1F15, 1, 0x1F18), (0x1F20, 0x1F27, 1, 0x1F28), (0x1F30, 0x1F37, 1, 0x1F38),
     (0x1F40, 0x1F45, 1, 0x1F48), (0x1F51, 0x1F57, 2, 0x1F59), (0x1F60, 0x1F67, 1, 0x1F68),
     (0x1F70, 0x1F71, 1, 0x1FBA), (0x1F72, 0x1F75, 1, 0x1FC8), (0x1F76, 0x1F77, 1, 0x1FDA),
     (0x1F78, 0x1F79, 1, 0x1FF8), (0x1F7A, 0x1F7B, 1, 0x1FEA), (0x1F7C, 0x1F7D, 1, 0x1FFA),
     (0x1FB0, 0x1FB1, 1, 0x1FB8), (0x1FBE, 0x1FBE, 1, 0x399), (0x1FD0, 0x1FD1, 1, 0x1FD8),
     (0x1FE0, 0x1FE1, 1, 0x1FE8), (0x1FE5, 0x1FE5, 1, 0x1FEC), (0x214E, 0x214E, 1, 0x2132),
     (0x2170, 0x217F, 1, 0x2160), (0x2184, 0x2184, 1, 0x2183), (0x24D0, 0x24E9, 1, 0x24B6),
     (0x2C30, 0x2C5F, 1, 0x2C00), (0x2C61, 0x2C61, 1, 0x2C60), (0x2C65, 0x2C65, 1, 0x23A),
     (0x2C66, 0x2C66, 1, 0x23E), (0x2C68, 0x2C6C, 2, 0x2C67), (0x2C73, 0x2C73, 1, 0x2C72),
     (0x2C76, 0x2C76, 1, 0x2C75), (0x2C81, 0x2CE3, 2, 0x2C80), (0x2CEC, 0x2CEE, 2, 0x2CEB),
     (0x2CF3, 0x2CF3, 1, 0x2CF2), (0x2D00, 0x2D25, 1, 0x10A0), (0x2D27, 0x2D27, 1, 0x10C7),
     (0x2D2D, 0x2D2D, 1, 0x10CD), (0xA641, 0xA66D, 2, 0xA640), (0xA681, 0xA69B, 2, 0xA680),
     (0xA723, 0xA72F, 2, 0xA722), (0xA733, 0xA76F, 2, 0xA732), (0xA77A, 0xA77C, 2, 0xA779),
     (0xA77F, 0xA787, 2, 0xA77E), (0xA78C, 0xA78C, 1, 0xA78B), (0xA791, 0xA793, 2, 0xA790),
     (0xA794, 0xA794, 1, 0xA7C4), (0xA797, 0xA7A9, 2, 0xA796), (0xA7B5, 0xA7C3, 2, 0xA7B4),
     (0xA7C8, 0xA7CA, 2, 0xA7C7), (0xA7D1, 0xA7D1, 1, 0xA7D0), (0xA7D7, 0xA7D9, 2, 0xA7D6),
     (0xA7F6, 0xA7F6, 1, 0xA7F5), (0xAB53, 0xAB53, 1, 0xA7B3), (0xAB70, 0xABBF, 1, 0x13A0),
     (0xFF41, 0xFF5A, 1, 0xFF21), (0x10428, 0x1044F, 1, 0x10400),
     (0x104D8, 0x104FB, 1, 0x104B0), (0x10597, 0x105BB, 2, 0x10570),
     (0x10598, 0x105A0, 2, 0x10571), (0x105A4, 0x105B0, 2, 0x1057D),
     (0x105B4, 0x105B8, 2, 0x1058D), (0x105BC, 0x105BC, 1, 0x10595),
     (0x10CC0, 0x10CF2, 1, 0x10C80), (0x118C0, 0x118DF, 1, 0x118A0),
     (0x16E60, 0x16E7F, 1, 0x16E40), (0x1E922, 0x1E943, 1, 0x1E900)]"

definition unicode_upper :: "nat \<Rightarrow> nat list" where
  "unicode_upper c =
     (case map_of upper_special c of
        Some us \<Rightarrow> us
      | None \<Rightarrow>
          (case find (\<lambda>(lo, hi, st, img). lo \<le> c \<and> c \<le> hi \<and> (c - lo) mod st = 0)
                  upper_ranges of
             Some (lo, hi, st, img) \<Rightarrow> [img + (c - lo)]
           | None \<Rightarrow> [c]))"

text \<open>\<open>s.strip()\<close>, \<open>s.upper()\<close> and \<open>s.isdigit()\<close>.\<close>

definition py_strip :: "str \<Rightarrow> str" where
  "py_strip s = rev (dropWhile is_space (rev (dropWhile is_space s)))"

definition py_upper :: "str \<Rightarrow> str" where
  "py_upper s = concat (map unicode_upper s)"

definition py_isdigit :: "str \<Rightarrow> bool" where
  "py_isdigit s = (s \<noteq> [] \<and> list_all is_digit s)"

text \<open>
  The number a run of decimal digits denotes, and \<open>int(s)\<close> on a text that passed
  \<open>isdigit\<close>: it raises ValueError (the result \<open>None\<close>) on a digit character that is
  no decimal digit and on more than 4300 digits.
\<close>

definition digits_value :: "str \<Rightarrow> nat" where
  "digits_value s =
     foldl (\<lambda>a c. 10 * a + (case decimal_value c of None \<Rightarrow> 0 | Some v \<Rightarrow> v)) 0 s"

definition py_int :: "str \<Rightarrow> nat option" where
  "py_int s =
     (if s \<noteq> [] \<and> list_all is_decimal s \<and> length s \<le> 4300 then Some (digits_value s)
      else None)"

text \<open>
  A pattern anchored with \<open>$\<close> and applied with \<open>match\<close> accepts the text itself and the
  text followed by one final line feed.
\<close>

definition dollar_match :: "(str \<Rightarrow> bool) \<Rightarrow> str \<Rightarrow> bool" where
  "dollar_match body s =
     (body s \<or> (s \<noteq> [] \<and> last s = 10 \<and> body (butlast s)))"

section \<open>Validation\<close>

text \<open>\<open>PASSPORT_RE = re.compile(r"^[A-Z]{2}\d{7}$")\<close>\<close>

definition passport_body :: "str \<Rightarrow> bool" where
  "passport_body p =
     (length p = 9 \<and> list_all is_upper_az (take 2 p) \<and> list_all is_decimal (drop 2 p))"

definition PASSPORT_RE_match :: "str \<Rightarrow> bool" where
  "PASSPORT_RE_match p = dollar_match passport_body p"

text \<open>\<open>normalize_passport\<close>: \<open>re.sub(r"\s+", "", text.strip().upper())\<close>\<close>

definition normalize_passport :: "str \<Rightarrow> str" where
  "normalize_passport text = filter (\<lambda>c. \<not> is_space c) (py_upper (py_strip text))"

section \<open>Conversation state\<close>

text \<open>
  The states of the two \<open>StatesGroup\<close> classes, and the \<open>FSMContext\<close> of one chat
  identity: the current state (\<open>None\<close> when no conversation is open) and the data
  dictionary, whose only keys in this program are \<open>passport\<close>, \<open>tardy_reason\<close> and
  \<open>tardy_start\<close>.
\<close>

datatype fsm_state =
    Reg_passport | Reg_birthdate
  | Tardy_waiting_reason | Tardy_waiting_start | Tardy_waiting_end

record fsm_context =
  state :: "fsm_state option"
  data_passport :: "str option"
  data_tardy_reason :: "str option"
  data_tardy_start :: "str option"

text \<open>\<open>state.clear()\<close> drops the state and the data; \<open>state.set_state\<close> keeps the data.\<close>

definition fsm_clear :: "fsm_context \<Rightarrow> fsm_context" where
  "fsm_clear c = \<lparr>state = None, data_passport = None, data_tardy_reason = None,
                  data_tardy_start = None\<rparr>"

definition set_state :: "fsm_state \<Rightarrow> fsm_context \<Rightarrow> fsm_context" where
  "set_state s c = c\<lparr>state := Some s\<rparr>"

section \<open>Time\<close>

text \<open>
  The fields of a naive \<open>datetime\<close>. A \<open>clock\<close> is what the two clock calls of the
  program return at the moment a handler runs: \<open>datetime.utcnow()\<close> and
  \<open>datetime.now(ZoneInfo(TIMEZONE))\<close>, the same instant read in UTC and in the
  configured zone.
\<close>

record datetime =
  year :: nat
  month :: nat
  day :: nat
  hour :: nat
  minute :: nat
  second :: nat
  microsecond :: nat

record clock =
  utc_now :: datetime
  local_now :: datetime

definition now_local_dt :: "clock \<Rightarrow> datetime" where
  "now_local_dt clk = local_now clk"

text \<open>Decimal digits, zero padded to a fixed width (the fields are always in range).\<close>

definition digit_char :: "nat \<Rightarrow> nat" where
  "digit_char n = 48 + n mod 10"

fun pad :: "nat \<Rightarrow> nat \<Rightarrow> str" where
  "pad 0 n = []"
| "pad (Suc k) n = pad k (n div 10) @ [digit_char n]"

text \<open>\<open>strftime("%H:%M")\<close>, \<open>strftime("%Y-%m-%d %H:%M:%S")\<close> (years from 1000 on) and
  \<open>isoformat()\<close>, which appends the microseconds only when they are not zero.\<close>

definition strftime_hm :: "datetime \<Rightarrow> str" where
  "strftime_hm d = pad 2 (hour d) @ ustr '':'' @ pad 2 (minute d)"

definition strftime_ymd_hms :: "datetime \<Rightarrow> str" where
  "strftime_ymd_hms d =
     pad 4 (year d) @ ustr ''-'' @ pad 2 (month d) @ ustr ''-'' @ pad 2 (day d) @ ustr '' '' @
     pad 2 (hour d) @ ustr '':'' @ pad 2 (minute d) @ ustr '':'' @ pad 2 (second d)"

definition isoformat :: "datetime \<Rightarrow> str" where
  "isoformat d =
     pad 4 (year d) @ ustr ''-'' @ pad 2 (month d) @ ustr ''-'' @ pad 2 (day d) @ ustr ''T'' @
     pad 2 (hour d) @ ustr '':'' @ pad 2 (minute d) @ ustr '':'' @ pad 2 (second d) @
     (if microsecond d = 0 then [] else ustr ''.'' @ pad 6 (microsecond d))"

text \<open>\<open>submitted_now_str\<close>: \<open>return datetime.utcnow().isoformat()\<close>\<close>

definition submitted_now_str :: "clock \<Rightarrow> str" where
  "submitted_now_str clk = isoformat (utc_now clk)"

definition now_local_hm :: "clock \<Rightarrow> str" where
  "now_local_hm clk = strftime_hm (now_local_dt clk)"

section \<open>Record store\<close>

text \<open>
  The two tables. A \<open>users\<close> row is keyed by \<open>tg_id\<close>; its TEXT columns are nullable.
  \<open>tardy_requests\<close> keeps its rows in insertion order; \<open>tardy_seq\<close> is the counter that
  AUTOINCREMENT keeps in \<open>sqlite_sequence\<close>. The program never deletes a request.
\<close>

record user =
  passport :: "str option"
  birthdate :: "str option"
  full_name :: "str option"
  registered_at :: "str option"
  is_manager :: int
  supervisor_tg_id :: "str option"

record tardy_request =
  id_col :: int
  employee_tg_id :: str
  manager_tg_id :: "str option"
  reason :: str
  start_time :: "str option"
  end_time :: "str option"
  submitted_at :: str
  status :: str

record db =
  users :: "str \<rightharpoonup> user"
  tardy_requests :: "tardy_request list"
  tardy_seq :: int

datatype py_exn =
    KeyError | AttributeError | IntegrityError | DatabaseFull | BindError | OverflowError
  | TransportError str

definition get_user :: "db \<Rightarrow> str \<Rightarrow> user option" where
  "get_user d tg_id = users d tg_id"

definition delete_user :: "db \<Rightarrow> str \<Rightarrow> db" where
  "delete_user d tg_id = d\<lparr>users := (users d)(tg_id := None)\<rparr>"

text \<open>
  The id AUTOINCREMENT assigns: one more than the largest id the table has ever held;
  the insert fails when that is the largest 64-bit integer.
\<close>

definition last_rowid :: "db \<Rightarrow> int" where
  "last_rowid d = fold max (map id_col (tardy_requests d)) (tardy_seq d)"

text \<open>
  \<open>create_tardy_request\<close>. The handler passes \<open>data.get("tardy_reason")\<close>, which may be
  \<open>None\<close>; the column is NOT NULL and the insert then raises.
\<close>

definition create_tardy_request ::
  "clock \<Rightarrow> db \<Rightarrow> str \<Rightarrow> str \<Rightarrow> str option \<Rightarrow> str option \<Rightarrow> str option
     \<Rightarrow> py_exn + (db \<times> int)" where
  "create_tardy_request clk d employee manager reason_opt start_hm end_hm =
     (case reason_opt of
        None \<Rightarrow> Inl IntegrityError
      | Some rsn \<Rightarrow>
          if last_rowid d = 9223372036854775807 then Inl DatabaseFull
          else
            let rid = last_rowid d + 1;
                row = \<lparr>id_col = rid, employee_tg_id = employee, manager_tg_id = Some manager,
                       reason = rsn, start_time = start_hm, end_time = end_hm,
                       submitted_at = submitted_now_str clk, status = ustr ''pending''\<rparr>
            in Inr (d\<lparr>tardy_requests := tardy_requests d @ [row], tardy_seq := rid\<rparr>, rid))"

definition set_user_supervisor :: "db \<Rightarrow> str \<Rightarrow> str option \<Rightarrow> db" where
  "set_user_supervisor d tg_id supervisor =
     (case users d tg_id of
        None \<Rightarrow> d
      | Some u \<Rightarrow> d\<lparr>users := (users d)(tg_id \<mapsto> u\<lparr>supervisor_tg_id := supervisor\<rparr>)\<rparr>)"

definition get_tardy :: "db \<Rightarrow> int \<Rightarrow> tardy_request option" where
  "get_tardy d req_id = find (\<lambda>r. id_col r = req_id) (tardy_requests d)"

definition set_tardy_status :: "db \<Rightarrow> int \<Rightarrow> str \<Rightarrow> db" where
  "set_tardy_status d req_id st =
     d\<lparr>tardy_requests :=
         map (\<lambda>r. if id_col r = req_id then r\<lparr>status := st\<rparr> else r) (tardy_requests d)\<rparr>"

section \<open>Dates and times of day\<close>

text \<open>\<open>BIRTHDATE_RE = re.compile(r"^\d{2}\.\d{2}\.\d{4}$")\<close>; the full stop is code point 46.\<close>

definition birthdate_body :: "str \<Rightarrow> bool" where
  "birthdate_body s =
     (length s = 10 \<and> list_all is_decimal (take 2 s) \<and> s ! 2 = 46 \<and>
      list_all is_decimal (take 2 (drop 3 s)) \<and> s ! 5 = 46 \<and>
      list_all is_decimal (drop 6 s))"

definition BIRTHDATE_RE_match :: "str \<Rightarrow> bool" where
  "BIRTHDATE_RE_match s = dollar_match birthdate_body s"

text \<open>
  The directives of \<open>strptime\<close> on two characters that a separator or the end follows.
  Their patterns spell the leading digit in ASCII and leave the second one to \<open>\d\<close> only
  where every digit is possible:
  \<^item> \<open>%d\<close>: \<open>3[0-1]|[1-2]\d|0[1-9]|[1-9]| [1-9]\<close>;
  \<^item> \<open>%m\<close>: \<open>1[0-2]|0[1-9]|[1-9]\<close>;
  \<^item> \<open>%H\<close>: \<open>2[0-3]|[0-1]\d|\d\<close>;
  \<^item> \<open>%M\<close>: \<open>[0-5]\d|\d\<close>.
  The alternatives of one character leave the second one unconverted, which raises.
\<close>

definition day_directive :: "nat \<Rightarrow> nat \<Rightarrow> bool" where
  "day_directive a b =
     ((a = 51 \<and> 48 \<le> b \<and> b \<le> 49) \<or> (49 \<le> a \<and> a \<le> 50 \<and> is_decimal b) \<or>
      (a = 48 \<and> 49 \<le> b \<and> b \<le> 57))"

definition month_directive :: "nat \<Rightarrow> nat \<Rightarrow> bool" where
  "month_directive a b =
     ((a = 49 \<and> 48 \<le> b \<and> b \<le> 50) \<or> (a = 48 \<and> 49 \<le> b \<and> b \<le> 57))"

definition hour_directive :: "nat \<Rightarrow> nat \<Rightarrow> bool" where
  "hour_directive a b =
     ((a = 50 \<and> 48 \<le> b \<and> b \<le> 51) \<or> (48 \<le> a \<and> a \<le> 49 \<and> is_decimal b))"

definition minute_directive :: "nat \<Rightarrow> nat \<Rightarrow> bool" where
  "minute_directive a b = (48 \<le> a \<and> a \<le> 53 \<and> is_decimal b)"

definition leap_year :: "nat \<Rightarrow> bool" where
  "leap_year y = (y mod 4 = 0 \<and> (y mod 100 \<noteq> 0 \<or> y mod 400 = 0))"

definition days_in_month :: "nat \<Rightarrow> nat \<Rightarrow> nat" where
  "days_in_month y m =
     (if m = 2 then (if leap_year y then 29 else 28)
      else if m = 4 \<or> m = 6 \<or> m = 9 \<or> m = 11 then 30 else 31)"

definition calendar_date :: "nat \<Rightarrow> nat \<Rightarrow> nat \<Rightarrow> bool" where
  "calendar_date y m d =
     (1 \<le> y \<and> 1 \<le> m \<and> m \<le> 12 \<and> 1 \<le> d \<and> d \<le> days_in_month y m)"

text \<open>
  \<open>valid_birthdate\<close>. Behind the pattern, \<open>strptime(s, "%d.%m.%Y")\<close> raises ValueError on
  the final line feed the pattern lets through (unconverted data), on a day or month
  its directives do not match, and on a day, month or year that is no calendar date;
  \<open>%Y\<close> is \<open>\d\d\d\d\<close>.
\<close>

definition valid_birthdate :: "str \<Rightarrow> bool" where
  "valid_birthdate s =
     (if \<not> BIRTHDATE_RE_match s then False
      else birthdate_body s \<and> day_directive (s ! 0) (s ! 1) \<and> month_directive (s ! 3) (s ! 4) \<and>
           calendar_date (digits_value (drop 6 s)) (digits_value (take 2 (drop 3 s)))
             (digits_value (take 2 s)))"

text \<open>
  A \<open>datetime.time\<close>: hour, minute, second, microsecond, ordered lexicographically.
  \<open>dtime h m\<close> is the constructor call \<open>dtime(h, m)\<close>.
\<close>

type_synonym dtime = "nat \<times> nat \<times> nat \<times> nat"

definition dtime :: "nat \<Rightarrow> nat \<Rightarrow> dtime" where
  "dtime h m = (h, m, 0, 0)"

definition time_of :: "datetime \<Rightarrow> dtime" where
  "time_of d = (hour d, minute d, second d, microsecond d)"

fun dtime_less :: "dtime \<Rightarrow> dtime \<Rightarrow> bool" where
  "dtime_less (h1, m1, s1, u1) (h2, m2, s2, u2) =
     (h1 < h2 \<or> (h1 = h2 \<and> (m1 < m2 \<or> (m1 = m2 \<and> (s1 < s2 \<or> (s1 = s2 \<and> u1 < u2))))))"

definition dtime_le :: "dtime \<Rightarrow> dtime \<Rightarrow> bool" where
  "dtime_le a b = (a = b \<or> dtime_less a b)"

text \<open>\<open>CUT_OFF = dtime(8, 10)\<close>\<close>

definition CUT_OFF :: dtime where
  "CUT_OFF = dtime 8 10"

text \<open>\<open>TIME_RE = re.compile(r"^\d{2}:\d{2}$")\<close>; the colon is code point 58.\<close>

definition time_body :: "str \<Rightarrow> bool" where
  "time_body s =
     (length s = 5 \<and> list_all is_decimal (take 2 s) \<and> s ! 2 = 58 \<and>
      list_all is_decimal (drop 3 s))"

definition TIME_RE_match :: "str \<Rightarrow> bool" where
  "TIME_RE_match s = dollar_match time_body s"

text \<open>
  \<open>parse_time_hhmm\<close>: the pattern on the stripped text, then \<open>strptime(.., "%H:%M")\<close>,
  which raises where its directives do not match; any exception gives \<open>None\<close>.
\<close>

definition parse_time_hhmm :: "str \<Rightarrow> dtime option" where
  "parse_time_hhmm s =
     (let t = py_strip s in
      if \<not> TIME_RE_match t then None
      else if time_body t \<and> hour_directive (t ! 0) (t ! 1) \<and> minute_directive (t ! 3) (t ! 4)
           then Some (dtime (digits_value (take 2 t)) (digits_value (drop 3 t)))
           else None)"

section \<open>HR gateway replies\<close>

text \<open>
  A value decoded from JSON, as far as the program looks at it: its truth value, its
  \<open>str()\<close> and what SQLite stores for it. Arrays and objects are kept as
  \<open>JCompound\<close> with their truth value and their \<open>str()\<close> text; numbers with a fraction
  are left out.
\<close>

datatype jval = JNull | JBool bool | JInt int | JStr str | JCompound bool str

fun truthy :: "jval \<Rightarrow> bool" where
  "truthy JNull = False"
| "truthy (JBool b) = b"
| "truthy (JInt n) = (n \<noteq> 0)"
| "truthy (JStr s) = (s \<noteq> [])"
| "truthy (JCompound b t) = b"

text \<open>\<open>a or b\<close>\<close>

definition py_or :: "jval \<Rightarrow> jval \<Rightarrow> jval" where
  "py_or a b = (if truthy a then a else b)"

fun show_nat :: "nat \<Rightarrow> str" where
  "show_nat n = (if n < 10 then [digit_char n] else show_nat (n div 10) @ [digit_char n])"

declare show_nat.simps [simp del]

definition show_int :: "int \<Rightarrow> str" where
  "show_int i = (if i < 0 then (ustr ''-'') @ show_nat (nat (- i)) else show_nat (nat i))"

fun py_str :: "jval \<Rightarrow> str" where
  "py_str JNull = (ustr ''None'')"
| "py_str (JBool b) = (if b then (ustr ''True'') else (ustr ''False''))"
| "py_str (JInt n) = show_int n"
| "py_str (JStr s) = s"
| "py_str (JCompound b t) = t"

text \<open>
  What \<open>resp.json(content_type=None)\<close> leaves in \<open>js\<close>: a dictionary (the empty one when
  decoding raised), or a value without \<open>.get\<close>. \<open>js_get\<close> is \<open>js.get(key)\<close>.
\<close>

datatype json_body = JDict "str \<rightharpoonup> jval" | JNotDict

definition js_get :: "(str \<rightharpoonup> jval) \<Rightarrow> str \<Rightarrow> jval" where
  "js_get js k = (case js k of None \<Rightarrow> JNull | Some v \<Rightarrow> v)"

text \<open>
  The outcome of one POST: the session raised, or a response with its status, its
  decoded body and its raw text.
\<close>

datatype hr_reply = Transport_failure str | Http int json_body str

text \<open>\<open>register_in_1c\<close> returns \<open>(status, js, txt)\<close> or lets the exception through.\<close>

definition register_in_1c :: "hr_reply \<Rightarrow> py_exn + (int \<times> json_body \<times> str)" where
  "register_in_1c reply =
     (case reply of
        Transport_failure e \<Rightarrow> Inl (TransportError e)
      | Http st js txt \<Rightarrow> Inr (st, js, txt))"

text \<open>
  What a TEXT column holds after binding a Python value: \<open>None\<close> is NULL, a bool or an
  integer is stored as its decimal text, an integer beyond 64 bits overflows, an array
  or object cannot be bound.
\<close>

definition sql_text :: "jval \<Rightarrow> py_exn + str option" where
  "sql_text v =
     (case v of
        JNull \<Rightarrow> Inr None
      | JBool b \<Rightarrow> Inr (Some (if b then (ustr ''1'') else (ustr ''0'')))
      | JInt n \<Rightarrow>
          if - 9223372036854775808 \<le> n \<and> n \<le> 9223372036854775807
          then Inr (Some (show_int n)) else Inl OverflowError
      | JStr s \<Rightarrow> Inr (Some s)
      | JCompound b t \<Rightarrow> Inl BindError)"

definition upsert_user ::
  "clock \<Rightarrow> db \<Rightarrow> str \<Rightarrow> str \<Rightarrow> str \<Rightarrow> jval \<Rightarrow> bool \<Rightarrow> jval \<Rightarrow> py_exn + db" where
  "upsert_user clk d tg_id pp bd name mgr supervisor =
     (case sql_text name of
        Inl e \<Rightarrow> Inl e
      | Inr n \<Rightarrow>
          (case sql_text supervisor of
             Inl e \<Rightarrow> Inl e
           | Inr sv \<Rightarrow>
               Inr (d\<lparr>users := (users d)(tg_id \<mapsto>
                      \<lparr>passport = Some pp, birthdate = Some bd, full_name = n,
                       registered_at = Some (strftime_ymd_hms (now_local_dt clk)),
                       is_manager = (if mgr then 1 else 0), supervisor_tg_id = sv\<rparr>)\<rparr>)))"

text \<open>\<open>re.search(r"\d{5,}", s)\<close>: the leftmost position that starts five or more digits,
  and all the digits from there.\<close>

fun search_digits5 :: "str \<Rightarrow> str option" where
  "search_digits5 [] = None"
| "search_digits5 (c # cs) =
     (let run = takeWhile is_decimal (c # cs)
      in if 5 \<le> length run then Some run else search_digits5 cs)"

section \<open>Replies\<close>

text \<open>
  The texts the handlers send, by what they say; a constructor's arguments are the
  values the text interpolates.
\<close>

datatype msg =
    Bad_passport_format
  | Ask_birthdate
  | Bad_birthdate_format
  | Syncing_with_1c
  | Registration_done str
  | Employee_not_found
  | Duplicates_found
  | Check_error str
  | Unexpected_reply int str
  | Connection_error py_exn
  | Register_first
  | No_notification_required
  | Ask_reason
  | Empty_reason
  | Ask_start
  | Bad_start_format
  | Ask_end
  | Bad_end_format
  | Start_unreadable
  | End_before_start
  | Register_first_again
  | No_valid_manager_id
  | Request_sent
  | Request_not_delivered
  | Sync_started
  | Sync_done str
  | Sync_no_supervisor
  | Sync_error py_exn
  | Not_found_or_processed
  | Not_enough_rights
  | Approved
  | Rejected

text \<open>The body of the decision POST to the HR gateway.\<close>

record decision_payload =
  p_req_id :: int
  p_employee_tg_id :: str
  p_manager_tg_id :: str
  p_employee_name :: str
  p_manager_name :: str
  p_reason :: str
  p_start :: "str option"
  p_end :: "str option"
  p_submitted_at :: str
  p_decided_at :: str
  p_decision :: str

text \<open>
  What a handler does towards the outside, in order. A call to the chat API that the
  source makes outside any \<open>try\<close> is taken to return; the failures the source catches are
  branches of the handlers.
  \<^item> \<open>Answer\<close>: \<open>message.answer(text)\<close>;
  \<^item> \<open>Answer_menu\<close>: the same with \<open>reply_markup=kb_main(is_manager)\<close>;
  \<^item> \<open>Notify_manager chat full_name start end reason sent req_id\<close>: the new request sent
    to the manager's chat with the two buttons carrying \<open>req_id\<close>;
  \<^item> \<open>Alert\<close>: \<open>cb.answer(text, show_alert=True)\<close>; \<open>Callback_answer\<close>: \<open>cb.answer(text)\<close>;
  \<^item> \<open>Edit_status\<close>: the status line appended to the message under the buttons;
  \<^item> \<open>Notify_employee chat r emp_name mgr_name status\<close>: the text of
    \<open>_format_employee_notice\<close> sent to the employee, an attempt whose failure is swallowed;
  \<^item> \<open>Post_decision\<close>: the POST of \<open>send_decision_to_1c\<close>, an attempt whose failure is
    swallowed.
\<close>

datatype action =
    Answer msg
  | Answer_menu msg bool
  | Notify_manager nat "str option" "str option" str "str option" str int
  | Alert msg
  | Callback_answer msg
  | Edit_status msg
  | Notify_employee str tardy_request str str msg
  | Post_decision decision_payload

section \<open>Registration flow\<close>

text \<open>\<open>ask_birthdate\<close>, the handler of a text in state \<open>Reg.passport\<close>.\<close>

definition ask_birthdate :: "db \<Rightarrow> fsm_context \<Rightarrow> str \<Rightarrow> db \<times> fsm_context \<times> action list" where
  "ask_birthdate d ctx text =
     (let p = normalize_passport text in
      if \<not> PASSPORT_RE_match p then (d, ctx, [Answer Bad_passport_format])
      else (d, set_state Reg_birthdate (ctx\<lparr>data_passport := Some p\<rparr>), [Answer Ask_birthdate]))"

text \<open>The texts \<open>"sotrudnik"\<close> (employee) and \<open>"Nevernye dannye."\<close> (wrong data), and the
  key \<open>"Rukovoditel"\<close> (manager), in Cyrillic as the source has them.\<close>

definition default_name :: str where
  "default_name =
     [0x441, 0x43E, 0x442, 0x440, 0x443, 0x434, 0x43D, 0x438, 0x43A]"

definition default_reason :: str where
  "default_reason =
     [0x41D, 0x435, 0x432, 0x435, 0x440, 0x43D, 0x44B, 0x435, 0x20, 0x434, 0x430, 0x43D,
      0x43D, 0x44B, 0x435, 0x2E]"

definition key_rukovoditel :: str where
  "key_rukovoditel =
     [0x420, 0x443, 0x43A, 0x43E, 0x432, 0x43E, 0x434, 0x438, 0x442, 0x435, 0x43B, 0x44C]"

text \<open>
  \<open>do_register\<close>, the handler of a text in state \<open>Reg.birthdate\<close>. \<open>reply\<close> is the outcome
  of the POST that \<open>register_in_1c\<close> makes. \<open>data["passport"]\<close> raises KeyError when the
  key is missing, before anything is sent: that is the result \<open>Inl KeyError\<close>. Everything
  raised inside the \<open>try\<close> ends in the connection-error message.
\<close>

definition do_register ::
  "clock \<Rightarrow> hr_reply \<Rightarrow> db \<Rightarrow> fsm_context \<Rightarrow> str \<Rightarrow> str
     \<Rightarrow> py_exn + (db \<times> fsm_context \<times> action list)" where
  "do_register clk reply d ctx user_id text =
     (let b = py_strip text in
      if \<not> valid_birthdate b then Inr (d, ctx, [Answer Bad_birthdate_format])
      else
        (case data_passport ctx of
          None \<Rightarrow> Inl KeyError
        | Some pp \<Rightarrow>
            (case register_in_1c reply of
               Inl e \<Rightarrow> Inr (d, ctx, [Answer Syncing_with_1c, Answer (Connection_error e)])
             | Inr (st, js, raw) \<Rightarrow>
                 if st = 200 then
                   (case js of
                      JNotDict \<Rightarrow>
                        Inr (d, ctx, [Answer Syncing_with_1c,
                                      Answer (Connection_error AttributeError)])
                    | JDict j \<Rightarrow>
                        let name = py_or (js_get j (ustr ''fullName''))
                                     (py_or (js_get j (ustr ''name'')) (JStr default_name));
                            mgr = truthy (py_or (js_get j (ustr ''isManager''))
                                     (py_or (js_get j (ustr ''is_manager''))
                                        (py_or (js_get j key_rukovoditel) (JBool False))));
                            supervisor = py_or (js_get j (ustr ''supervisor_tg_id''))
                                           (js_get j (ustr ''manager_tg_id''))
                        in (case upsert_user clk d user_id pp b name mgr supervisor of
                              Inl e \<Rightarrow>
                                Inr (d, ctx, [Answer Syncing_with_1c,
                                              Answer (Connection_error e)])
                            | Inr d' \<Rightarrow>
                                Inr (d', fsm_clear ctx,
                                     [Answer Syncing_with_1c,
                                      Answer_menu (Registration_done (py_str name)) mgr])))
                 else if st = 404 \<or> st = 204 then
                   Inr (d, ctx, [Answer Syncing_with_1c, Answer Employee_not_found])
                 else if st = 409 then
                   Inr (d, ctx, [Answer Syncing_with_1c, Answer Duplicates_found])
                 else if st = 400 then
                   (case js of
                      JNotDict \<Rightarrow>
                        Inr (d, ctx, [Answer Syncing_with_1c,
                                      Answer (Connection_error AttributeError)])
                    | JDict j \<Rightarrow>
                        Inr (d, ctx,
                             [Answer Syncing_with_1c,
                              Answer (Check_error
                                (py_str (py_or (js_get j (ustr ''reason'')) (JStr default_reason))))]))
                 else
                   Inr (d, ctx, [Answer Syncing_with_1c,
                                 Answer (Unexpected_reply st (take 500 raw))]))))"

section \<open>Supervisor sync\<close>

text \<open>\<open>not x\<close> for a nullable text: NULL and the empty text are false.\<close>

definition falsy :: "str option \<Rightarrow> bool" where
  "falsy x = (case x of None \<Rightarrow> True | Some s \<Rightarrow> s = [])"

text \<open>
  \<open>sync_supervisor_from_1c\<close>. The status of the response is not looked at. An
  exception of the POST, and the AttributeError of \<open>.get\<close> on a body that is no
  dictionary, leave the function before the write.
\<close>

text \<open>The value \<open>raw_id\<close> scanned from the accepted keys, in the order of the source.\<close>

definition raw_id :: "(str \<rightharpoonup> jval) \<Rightarrow> jval" where
  "raw_id j =
     py_or (js_get j (ustr ''supervisor_tg_id''))
    (py_or (js_get j (ustr ''manager_tg_id''))
    (py_or (js_get j (ustr ''managerId''))
    (py_or (js_get j (ustr ''supervisorId''))
    (py_or (js_get j (ustr ''supervisor''))
    (py_or (js_get j (ustr ''manager'')) (JStr []))))))"

definition sync_supervisor_from_1c ::
  "hr_reply \<Rightarrow> db \<Rightarrow> str \<Rightarrow> py_exn + (db \<times> str option)" where
  "sync_supervisor_from_1c reply d user_id =
     (case get_user d user_id of
        None \<Rightarrow> Inr (d, None)
      | Some u \<Rightarrow>
          if falsy (passport u) \<or> falsy (birthdate u) then Inr (d, None)
          else
            (case reply of
              Transport_failure e \<Rightarrow> Inl (TransportError e)
            | Http st js txt \<Rightarrow>
                (case js of
                   JNotDict \<Rightarrow> Inl AttributeError
                 | JDict j \<Rightarrow>
                     let supervisor = search_digits5 (py_str (raw_id j))
                     in Inr (set_user_supervisor d user_id supervisor, supervisor))))"

text \<open>\<open>sync_with_1c\<close>, the handler of the manual sync button.\<close>

definition sync_with_1c :: "hr_reply \<Rightarrow> db \<Rightarrow> str \<Rightarrow> db \<times> action list" where
  "sync_with_1c reply d user_id =
     (case get_user d user_id of
        None \<Rightarrow> (d, [Answer Register_first])
      | Some u \<Rightarrow>
          (case sync_supervisor_from_1c reply d user_id of
             Inl e \<Rightarrow> (d, [Answer Sync_started, Answer (Sync_error e)])
           | Inr (d', supervisor) \<Rightarrow>
               (case supervisor of
                  None \<Rightarrow> (d', [Answer Sync_started, Answer Sync_no_supervisor])
                | Some sid \<Rightarrow>
                    if sid = [] then (d', [Answer Sync_started, Answer Sync_no_supervisor])
                    else (d', [Answer Sync_started,
                               Answer_menu (Sync_done sid) (is_manager u \<noteq> 0)]))))"

section \<open>Tardy flow\<close>

text \<open>
  \<open>tardy_start\<close>, the handler of the tardy button. \<open>now_local_dt().time()\<close> keeps the
  seconds and microseconds of the clock.
\<close>

definition tardy_start ::
  "clock \<Rightarrow> db \<Rightarrow> fsm_context \<Rightarrow> str \<Rightarrow> db \<times> fsm_context \<times> action list" where
  "tardy_start clk d ctx user_id =
     (case get_user d user_id of
        None \<Rightarrow> (d, ctx, [Answer Register_first])
      | Some u \<Rightarrow>
          let now_t = time_of (now_local_dt clk) in
          if dtime_le now_t CUT_OFF then (d, ctx, [Answer No_notification_required])
          else (d, set_state Tardy_waiting_reason ctx, [Answer Ask_reason]))"

definition tardy_reason :: "db \<Rightarrow> fsm_context \<Rightarrow> str \<Rightarrow> db \<times> fsm_context \<times> action list" where
  "tardy_reason d ctx text =
     (let rsn = py_strip text in
      if rsn = [] then (d, ctx, [Answer Empty_reason])
      else (d, set_state Tardy_waiting_start (ctx\<lparr>data_tardy_reason := Some rsn\<rparr>),
            [Answer Ask_start]))"

definition tardy_start_time :: "db \<Rightarrow> fsm_context \<Rightarrow> str \<Rightarrow> db \<times> fsm_context \<times> action list" where
  "tardy_start_time d ctx text =
     (let s = py_strip text in
      case parse_time_hhmm s of
        None \<Rightarrow> (d, ctx, [Answer Bad_start_format])
      | Some t \<Rightarrow>
          (d, set_state Tardy_waiting_end (ctx\<lparr>data_tardy_start := Some s\<rparr>), [Answer Ask_end]))"

text \<open>\<open>str(x)\<close> and \<open>str(x or "")\<close> of a nullable text.\<close>

definition str_opt :: "str option \<Rightarrow> str" where
  "str_opt x = (case x of None \<Rightarrow> (ustr ''None'') | Some s \<Rightarrow> s)"

definition str_or_empty :: "str option \<Rightarrow> str" where
  "str_or_empty x = (case x of None \<Rightarrow> [] | Some s \<Rightarrow> s)"

text \<open>
  \<open>tardy_end_time\<close>, the handler of a text in state \<open>Tardy.waiting_end\<close>. A
  \<open>datetime.time\<close> is never false, so \<open>not e_time\<close> is \<open>e_time is None\<close>. \<open>delivered\<close>
  tells whether \<open>bot.send_message\<close> to the manager returned; a ValueError of
  \<open>int(manager_tg_id)\<close> is caught by the same \<open>except\<close>; the \<open>finally\<close> clears the
  conversation either way. An exception of the insert leaves the handler before any
  reply: the result \<open>Inl\<close>.
\<close>

definition tardy_end_time ::
  "clock \<Rightarrow> bool \<Rightarrow> db \<Rightarrow> fsm_context \<Rightarrow> str \<Rightarrow> str
     \<Rightarrow> py_exn + (db \<times> fsm_context \<times> action list)" where
  "tardy_end_time clk delivered d ctx user_id text =
     (let e_str = py_strip text in
      case parse_time_hhmm e_str of
        None \<Rightarrow> Inr (d, ctx, [Answer Bad_end_format])
      | Some e_time \<Rightarrow>
          (let start_str = data_tardy_start ctx;
               rsn = data_tardy_reason ctx;
               usr = get_user d user_id;
               s_time = (if falsy start_str then None else parse_time_hhmm (str_opt start_str))
           in case s_time of
                None \<Rightarrow> Inr (d, fsm_clear ctx, [Answer Start_unreadable])
              | Some s_t \<Rightarrow>
                  if dtime_less e_time s_t then Inr (d, ctx, [Answer End_before_start])
                  else
                    (case usr of
                       None \<Rightarrow> Inr (d, fsm_clear ctx, [Answer Register_first_again])
                     | Some u \<Rightarrow>
                         (let manager = py_strip (str_or_empty (supervisor_tg_id u)) in
                          if \<not> py_isdigit manager then
                            Inr (d, fsm_clear ctx, [Answer No_valid_manager_id])
                          else
                            (case create_tardy_request clk d user_id manager rsn start_str
                                    (Some e_str) of
                               Inl e \<Rightarrow> Inl e
                             | Inr (d', req_id) \<Rightarrow>
                                 (case py_int manager of
                                    None \<Rightarrow>
                                      Inr (d', fsm_clear ctx, [Answer Request_not_delivered])
                                  | Some chat \<Rightarrow>
                                      if delivered then
                                        Inr (d', fsm_clear ctx,
                                             [Notify_manager chat (full_name u) start_str e_str
                                                rsn (now_local_hm clk) req_id,
                                              Answer Request_sent])
                                      else
                                        Inr (d', fsm_clear ctx,
                                             [Answer Request_not_delivered])))))))"

section \<open>Approval handler\<close>

text \<open>The configuration read from the environment, as far as the handlers use it.\<close>

record config =
  ONEC_DECISION_URL :: "str option"

text \<open>\<open>(u or {}).get("full_name") or fallback\<close>\<close>

definition name_or :: "user option \<Rightarrow> str \<Rightarrow> str" where
  "name_or u fallback =
     (case u of
        None \<Rightarrow> fallback
      | Some x \<Rightarrow> if falsy (full_name x) then fallback else str_opt (full_name x))"

text \<open>\<open>get_user(r["manager_tg_id"])\<close>: a NULL key selects no row.\<close>

definition get_user_opt :: "db \<Rightarrow> str option \<Rightarrow> user option" where
  "get_user_opt d k = (case k of None \<Rightarrow> None | Some tg_id \<Rightarrow> get_user d tg_id)"

definition send_decision_to_1c ::
  "config \<Rightarrow> clock \<Rightarrow> tardy_request \<Rightarrow> str \<Rightarrow> str \<Rightarrow> str \<Rightarrow> action list" where
  "send_decision_to_1c cfg clk r decision emp_name mgr_name =
     (if falsy (ONEC_DECISION_URL cfg) then []
      else [Post_decision
              \<lparr>p_req_id = id_col r, p_employee_tg_id = employee_tg_id r,
               p_manager_tg_id = str_opt (manager_tg_id r), p_employee_name = emp_name,
               p_manager_name = mgr_name, p_reason = reason r, p_start = start_time r,
               p_end = end_time r, p_submitted_at = submitted_at r,
               p_decided_at = strftime_ymd_hms (now_local_dt clk), p_decision = decision\<rparr>])"

text \<open>
  \<open>tardy_approve\<close> and \<open>tardy_reject\<close>, the handlers of the two buttons. \<open>from_id\<close> is
  \<open>str(cb.from_user.id)\<close> and \<open>req_id\<close> the integer read from the callback data. The row
  \<open>r\<close> the notices are built from is the one read before the write.
\<close>

definition tardy_approve ::
  "config \<Rightarrow> clock \<Rightarrow> db \<Rightarrow> str \<Rightarrow> int \<Rightarrow> db \<times> action list" where
  "tardy_approve cfg clk d from_id req_id =
     (case get_tardy d req_id of
        None \<Rightarrow> (d, [Alert Not_found_or_processed])
      | Some r \<Rightarrow>
          if status r \<noteq> (ustr ''pending'') then (d, [Alert Not_found_or_processed])
          else if from_id \<noteq> str_opt (manager_tg_id r) then (d, [Alert Not_enough_rights])
          else
            (let d' = set_tardy_status d req_id (ustr ''approved'');
                 emp = get_user d' (employee_tg_id r);
                 mgr = get_user_opt d' (manager_tg_id r);
                 emp_name = name_or emp (employee_tg_id r);
                 mgr_name = name_or mgr (str_opt (manager_tg_id r))
             in (d', [Edit_status Approved,
                      Notify_employee (employee_tg_id r) r emp_name mgr_name Approved]
                     @ send_decision_to_1c cfg clk r (ustr ''approved'') emp_name mgr_name
                     @ [Callback_answer Approved])))"

definition tardy_reject ::
  "config \<Rightarrow> clock \<Rightarrow> db \<Rightarrow> str \<Rightarrow> int \<Rightarrow> db \<times> action list" where
  "tardy_reject cfg clk d from_id req_id =
     (case get_tardy d req_id of
        None \<Rightarrow> (d, [Alert Not_found_or_processed])
      | Some r \<Rightarrow>
          if status r \<noteq> (ustr ''pending'') then (d, [Alert Not_found_or_processed])
          else if from_id \<noteq> str_opt (manager_tg_id r) then (d, [Alert Not_enough_rights])
          else
            (let d' = set_tardy_status d req_id (ustr ''rejected'');
                 emp = get_user d' (employee_tg_id r);
                 mgr = get_user_opt d' (manager_tg_id r);
                 emp_name = name_or emp (employee_tg_id r);
                 mgr_name = name_or mgr (str_opt (manager_tg_id r))
             in (d', [Edit_status Rejected,
                      Notify_employee (employee_tg_id r) r emp_name mgr_name Rejected]
                     @ send_decision_to_1c cfg clk r (ustr ''rejected'') emp_name mgr_name
                     @ [Callback_answer Rejected])))"

text \<open>
  A decision action: the verb its callback data starts with (\<open>tardy_ok:\<close> or
  \<open>tardy_rej:\<close>) selects the handler.
\<close>

datatype verb = Approve | Reject

definition decision_action ::
  "verb \<Rightarrow> config \<Rightarrow> clock \<Rightarrow> db \<Rightarrow> str \<Rightarrow> int \<Rightarrow> db \<times> action list" where
  "decision_action v cfg clk d from_id req_id =
     (case v of
        Approve \<Rightarrow> tardy_approve cfg clk d from_id req_id
      | Reject \<Rightarrow> tardy_reject cfg clk d from_id req_id)"

section \<open>Sample values\<close>

text \<open>An empty store, and a clock read at 04:30 UTC on a deployment in the default zone
  \<open>Asia/Tashkent\<close>, five hours ahead.\<close>

definition db0 :: db where
  "db0 = \<lparr>users = Map.empty, tardy_requests = [], tardy_seq = 0\<rparr>"

definition clock0 :: clock where
  "clock0 = \<lparr>utc_now = \<lparr>year = 2024, month = 3, day = 1, hour = 4, minute = 30, second = 0,
                        microsecond = 0\<rparr>,
             local_now = \<lparr>year = 2024, month = 3, day = 1, hour = 9, minute = 30, second = 0,
                          microsecond = 0\<rparr>\<rparr>"

definition tashkent_clock :: "nat \<Rightarrow> nat \<Rightarrow> nat \<Rightarrow> clock" where
  "tashkent_clock h m s =
     \<lparr>utc_now = \<lparr>year = 2024, month = 3, day = 1, hour = h - 5, minute = m, second = s,
                 microsecond = 0\<rparr>,
      local_now = \<lparr>year = 2024, month = 3, day = 1, hour = h, minute = m, second = s,
                   microsecond = 0\<rparr>\<rparr>"

text \<open>A registered employee \<open>1001\<close> whose supervisor is \<open>2002\<close>, and a context with no
  conversation open.\<close>

definition user1 :: user where
  "user1 = \<lparr>passport = Some (ustr ''AD1234567''), birthdate = Some (ustr ''30.09.2005''),
            full_name = Some (ustr ''Ann''), registered_at = Some (ustr ''2024-01-01 10:00:00''),
            is_manager = 0, supervisor_tg_id = Some (ustr ''2002'')\<rparr>"

definition db1 :: db where
  "db1 = \<lparr>users = [(ustr ''1001'') \<mapsto> user1], tardy_requests = [], tardy_seq = 0\<rparr>"

definition ctx_idle :: fsm_context where
  "ctx_idle = \<lparr>state = None, data_passport = None, data_tardy_reason = None,
               data_tardy_start = None\<rparr>"

text \<open>Contexts in the two registration states and at the last step of the tardy flow.\<close>

definition ctx_passport :: fsm_context where
  "ctx_passport = \<lparr>state = Some Reg_passport, data_passport = None,
                   data_tardy_reason = None, data_tardy_start = None\<rparr>"

definition ctx_birthdate :: fsm_context where
  "ctx_birthdate = \<lparr>state = Some Reg_birthdate, data_passport = Some (ustr ''AD1234567''),
                    data_tardy_reason = None, data_tardy_start = None\<rparr>"

definition ctx_end :: "str \<Rightarrow> fsm_context" where
  "ctx_end start_str = \<lparr>state = Some Tardy_waiting_end, data_passport = None,
                        data_tardy_reason = Some (ustr ''traffic''),
                        data_tardy_start = Some start_str\<rparr>"

text \<open>The same employee with the supervisor stored between blanks, and the body of a
  verification response that registers the employee so.\<close>

definition body2 :: "str \<rightharpoonup> jval" where
  "body2 = [(ustr ''fullName'') \<mapsto> JStr (ustr ''Ann''), (ustr ''supervisor_tg_id'') \<mapsto> JStr (ustr '' 20020 '')]"


definition user2 :: user where
  "user2 = \<lparr>passport = Some (ustr ''AD1234567''), birthdate = Some (ustr ''30.09.2005''),
            full_name = Some (ustr ''Ann''), registered_at = Some (ustr ''2024-03-01 09:30:00''),
            is_manager = 0, supervisor_tg_id = Some (ustr '' 20020 '')\<rparr>"

text \<open>The same employee with no supervisor stored.\<close>

definition user3 :: user where
  "user3 = \<lparr>passport = Some (ustr ''AD1234567''), birthdate = Some (ustr ''30.09.2005''),
            full_name = Some (ustr ''Ann''), registered_at = Some (ustr ''2024-01-01 10:00:00''),
            is_manager = 0, supervisor_tg_id = None\<rparr>"

definition db5 :: db where
  "db5 = \<lparr>users = [(ustr ''1001'') \<mapsto> user3], tardy_requests = [], tardy_seq = 0\<rparr>"

definition db2 :: db where
  "db2 = \<lparr>users = [(ustr ''1001'') \<mapsto> user2], tardy_requests = [], tardy_seq = 0\<rparr>"

text \<open>A store with one pending request, one with the same request already approved, and
  a configuration without a decision URL.\<close>

definition request1 :: tardy_request where
  "request1 = \<lparr>id_col = 1, employee_tg_id = (ustr ''1001''), manager_tg_id = Some (ustr ''2002''),
               reason = (ustr ''traffic''), start_time = Some (ustr ''09:20''), end_time = Some (ustr ''09:45''),
               submitted_at = (ustr ''2024-03-01T04:30:00''), status = (ustr ''pending'')\<rparr>"

definition db3 :: db where
  "db3 = \<lparr>users = [(ustr ''1001'') \<mapsto> user1], tardy_requests = [request1], tardy_seq = 1\<rparr>"

definition db4 :: db where
  "db4 = \<lparr>users = [(ustr ''1001'') \<mapsto> user1],
          tardy_requests = [request1\<lparr>status := (ustr ''approved'')\<rparr>], tardy_seq = 1\<rparr>"

definition cfg0 :: config where
  "cfg0 = \<lparr>ONEC_DECISION_URL = None\<rparr>"

section \<open>The specification's wording\<close>

text \<open>
  The normalization of a passport as the specification words it: upper case, and all
  whitespace removed.
\<close>

definition spec_normalize :: "str \<Rightarrow> str" where
  "spec_normalize text = filter (\<lambda>c. \<not> is_space c) (py_upper text)"

section \<open>Properties of the record store\<close>

lemma ustr_eq_iff [simp]: "ustr a = ustr b \<longleftrightarrow> a = b"
  by (simp add: ustr_def inj_of_char)

lemma ustr_Nil_iff [simp]: "ustr s = [] \<longleftrightarrow> s = []"
  by (simp add: ustr_def)

lemma fold_max_ge_init: "(a::int) \<le> fold max xs a"
  by (induction xs arbitrary: a) (auto intro: order_trans [OF max.cobounded2])

lemma fold_max_ge_elem: "x \<in> set xs \<Longrightarrow> (x::int) \<le> fold max xs a"
proof (induction xs arbitrary: a)
  case Nil
  then show ?case by simp
next
  case (Cons y ys)
  show ?case
  proof (cases "x = y")
    case True
    have "y \<le> max y a" by simp
    also have "\<dots> \<le> fold max ys (max y a)" by (rule fold_max_ge_init)
    finally show ?thesis using True by simp
  next
    case False
    with Cons show ?thesis by simp
  qed
qed

lemma id_col_le_last_rowid: "r \<in> set (tardy_requests d) \<Longrightarrow> id_col r \<le> last_rowid d"
  unfolding last_rowid_def by (rule fold_max_ge_elem) simp

lemma find_append_fresh:
  "\<forall>x\<in>set xs. \<not> P x \<Longrightarrow> P y \<Longrightarrow> find P (xs @ [y]) = Some y"
  by (induction xs) auto

lemma get_tardy_fresh:
  "last_rowid d < id_col row \<Longrightarrow>
   get_tardy (d\<lparr>tardy_requests := tardy_requests d @ [row], tardy_seq := k\<rparr>) (id_col row)
     = Some row"
proof -
  assume fresh: "last_rowid d < id_col row"
  have "\<forall>r\<in>set (tardy_requests d). \<not> id_col r = id_col row"
  proof
    fix r assume "r \<in> set (tardy_requests d)"
    then have "id_col r \<le> last_rowid d" by (rule id_col_le_last_rowid)
    with fresh show "\<not> id_col r = id_col row" by simp
  qed
  then have "find (\<lambda>r. id_col r = id_col row) (tardy_requests d @ [row]) = Some row"
    by (rule find_append_fresh) simp
  then show ?thesis by (simp add: get_tardy_def)
qed

lemma last_rowid_db0: "last_rowid db0 = 0"
  by (simp add: last_rowid_def db0_def)

lemma create_then_get:
  assumes "last_rowid d \<noteq> 9223372036854775807"
  shows "\<exists>d' rid.
           create_tardy_request clk d employee manager (Some rsn) start_hm end_hm = Inr (d', rid) \<and>
           get_tardy d' rid =
             Some \<lparr>id_col = rid, employee_tg_id = employee, manager_tg_id = Some manager,
                   reason = rsn, start_time = start_hm, end_time = end_hm,
                   submitted_at = submitted_now_str clk, status = (ustr ''pending'')\<rparr>"
proof -
  let ?rid = "last_rowid d + 1"
  let ?row = "\<lparr>id_col = ?rid, employee_tg_id = employee, manager_tg_id = Some manager,
                reason = rsn, start_time = start_hm, end_time = end_hm,
                submitted_at = submitted_now_str clk, status = (ustr ''pending'')\<rparr>"
  have c: "create_tardy_request clk d employee manager (Some rsn) start_hm end_hm =
             Inr (d\<lparr>tardy_requests := tardy_requests d @ [?row], tardy_seq := ?rid\<rparr>, ?rid)"
    using assms by (simp add: create_tardy_request_def Let_def)
  have "last_rowid d < id_col ?row" by simp
  from get_tardy_fresh [OF this, of ?rid]
  have g: "get_tardy (d\<lparr>tardy_requests := tardy_requests d @ [?row], tardy_seq := ?rid\<rparr>) ?rid
             = Some ?row" by simp
  from c g show ?thesis by blast
qed

text \<open>
  C9. Creating a request and reading it back by the id the creation returned gives a
  row with the employee, approver, reason, start and end that were passed and the
  status \<open>pending\<close>. The insert itself succeeds whenever the id counter has not reached
  the largest 64-bit integer.
\<close>

theorem create_tardy_request_roundtrip:
  assumes "last_rowid d \<noteq> 9223372036854775807"
  shows "\<exists>d' rid.
           create_tardy_request clk d employee manager (Some rsn) start_hm end_hm = Inr (d', rid) \<and>
           get_tardy d' rid =
             Some \<lparr>id_col = rid, employee_tg_id = employee, manager_tg_id = Some manager,
                   reason = rsn, start_time = start_hm, end_time = end_hm,
                   submitted_at = submitted_now_str clk, status = (ustr ''pending'')\<rparr>"
  using assms by (rule create_then_get)

theorem create_tardy_request_roundtrip_witness:
  "last_rowid db0 \<noteq> 9223372036854775807 \<and>
   (\<exists>d' rid.
      create_tardy_request clock0 db0 (ustr ''1001'') (ustr ''2002'') (Some (ustr ''traffic'')) (Some (ustr ''09:20''))
        (Some (ustr ''09:45'')) = Inr (d', rid) \<and>
      get_tardy d' rid =
        Some \<lparr>id_col = rid, employee_tg_id = (ustr ''1001''), manager_tg_id = Some (ustr ''2002''),
              reason = (ustr ''traffic''), start_time = Some (ustr ''09:20''), end_time = Some (ustr ''09:45''),
              submitted_at = submitted_now_str clock0, status = (ustr ''pending'')\<rparr>)"
proof -
  have h: "last_rowid db0 \<noteq> 9223372036854775807" by (simp add: last_rowid_db0)
  from create_tardy_request_roundtrip [OF h] h show ?thesis by blast
qed

lemma submitted_now_str_clock0: "submitted_now_str clock0 = (ustr ''2024-03-01T04:30:00'')"
  by code_simp

lemma local_now_clock0: "strftime_ymd_hms (now_local_dt clock0) = (ustr ''2024-03-01 09:30:00'')"
  by code_simp

text \<open>
  C3. The stored \<open>submitted_at\<close> is the UTC reading of the clock in ISO format, not the
  local time: on a deployment five hours ahead of UTC, a request created at 09:30 local
  time is stored with 04:30.
\<close>

theorem submitted_at_stored_in_utc:
  "(case create_tardy_request clock0 db0 (ustr ''1001'') (ustr ''2002'') (Some (ustr ''traffic'')) (Some (ustr ''09:20''))
          (Some (ustr ''09:45'')) of
      Inl e \<Rightarrow> None
    | Inr (d', rid) \<Rightarrow> map_option submitted_at (get_tardy d' rid))
     = Some (ustr ''2024-03-01T04:30:00'') \<and>
   strftime_ymd_hms (now_local_dt clock0) = (ustr ''2024-03-01 09:30:00'')"
proof -
  have "last_rowid db0 \<noteq> 9223372036854775807" by (simp add: last_rowid_db0)
  from create_then_get [OF this, of clock0 "(ustr ''1001'')" "(ustr ''2002'')" "(ustr ''traffic'')"
      "Some (ustr ''09:20'')" "Some (ustr ''09:45'')"]
  show ?thesis by (auto simp: submitted_now_str_clock0 local_now_clock0)
qed

section \<open>Properties of the tardy flow\<close>

lemma cut_off_excludes_later:
  "dtime_le (dtime 8 11) t \<Longrightarrow> \<not> dtime_le t CUT_OFF"
  by (cases t) (auto simp: dtime_le_def dtime_def CUT_OFF_def)

text \<open>
  C4. For a registered user, a tardy report at a local time of day at or before 08:10
  gets the answer that no notification is required, leaves the conversation context as
  it was and writes nothing; at 08:11 or later the state of the conversation becomes
  the one waiting for the reason, the data of the context is kept, and nothing is
  written.
\<close>

theorem tardy_start_cut_off:
  assumes "get_user d user_id = Some u"
  shows "(dtime_le (time_of (now_local_dt clk)) (dtime 8 10) \<longrightarrow>
            tardy_start clk d ctx user_id = (d, ctx, [Answer No_notification_required])) \<and>
         (dtime_le (dtime 8 11) (time_of (now_local_dt clk)) \<longrightarrow>
            tardy_start clk d ctx user_id =
              (d, ctx\<lparr>state := Some Tardy_waiting_reason\<rparr>, [Answer Ask_reason]))"
  using assms cut_off_excludes_later [of "time_of (now_local_dt clk)"]
  by (auto simp: tardy_start_def set_state_def CUT_OFF_def Let_def)

text \<open>Any time of day after 08:10:00, also within the minute 08:10, opens the conversation.\<close>

lemma tardy_start_after_cut_off:
  assumes "get_user d user_id = Some u"
      and "\<not> dtime_le (time_of (now_local_dt clk)) (dtime 8 10)"
  shows "tardy_start clk d ctx user_id =
           (d, ctx\<lparr>state := Some Tardy_waiting_reason\<rparr>, [Answer Ask_reason])"
  using assms by (simp add: tardy_start_def set_state_def CUT_OFF_def Let_def)

lemma get_user_db1: "get_user db1 (ustr ''1001'') = Some user1"
  by (simp add: get_user_def db1_def)

lemma time_0810: "time_of (now_local_dt (tashkent_clock 8 10 0)) = dtime 8 10"
  by (simp add: time_of_def now_local_dt_def tashkent_clock_def dtime_def)

lemma time_0811: "time_of (now_local_dt (tashkent_clock 8 11 0)) = dtime 8 11"
  by (simp add: time_of_def now_local_dt_def tashkent_clock_def dtime_def)

theorem tardy_start_cut_off_witness:
  "get_user db1 (ustr ''1001'') = Some user1 \<and>
   dtime_le (time_of (now_local_dt (tashkent_clock 8 10 0))) (dtime 8 10) \<and>
   tardy_start (tashkent_clock 8 10 0) db1 ctx_idle (ustr ''1001'') =
     (db1, ctx_idle, [Answer No_notification_required]) \<and>
   dtime_le (dtime 8 11) (time_of (now_local_dt (tashkent_clock 8 11 0))) \<and>
   tardy_start (tashkent_clock 8 11 0) db1 ctx_idle (ustr ''1001'') =
     (db1, \<lparr>state = Some Tardy_waiting_reason, data_passport = None,
             data_tardy_reason = None, data_tardy_start = None\<rparr>, [Answer Ask_reason])"
  using tardy_start_cut_off [OF get_user_db1, of "tashkent_clock 8 10 0" ctx_idle]
        tardy_start_cut_off [OF get_user_db1, of "tashkent_clock 8 11 0" ctx_idle]
  by (simp add: get_user_db1 time_0810 time_0811 dtime_le_def)
     (simp add: ctx_idle_def)
section \<open>Properties of the registration flow\<close>

text \<open>Upper case leaves a whitespace character as it is.\<close>

lemma upper_of_space: "is_space c \<Longrightarrow> unicode_upper c = [c]"
proof -
  have every: "list_all (\<lambda>c. unicode_upper c = [c]) whitespace_points"
    by code_simp
  assume "is_space c"
  then have "c \<in> set whitespace_points" by (simp add: is_space_def)
  with every show ?thesis by (simp add: list_all_iff)
qed

lemma nonspace_upper_append:
  "filter Q (py_upper (a @ b)) = filter Q (py_upper a) @ filter Q (py_upper b)"
  by (simp add: py_upper_def)

lemma nonspace_upper_spaces:
  "\<forall>c\<in>set ws. is_space c \<Longrightarrow> filter (\<lambda>c. \<not> is_space c) (py_upper ws) = []"
  by (induction ws) (auto simp: py_upper_def upper_of_space)

lemma nonspace_upper_drop_front:
  "filter (\<lambda>c. \<not> is_space c) (py_upper (dropWhile is_space xs)) =
   filter (\<lambda>c. \<not> is_space c) (py_upper xs)"
proof -
  have "xs = takeWhile is_space xs @ dropWhile is_space xs" by simp
  moreover have "\<forall>c\<in>set (takeWhile is_space xs). is_space c"
    by (auto dest: set_takeWhileD)
  ultimately show ?thesis
    using nonspace_upper_append [of "\<lambda>c. \<not> is_space c" "takeWhile is_space xs"
        "dropWhile is_space xs"]
    by (simp add: nonspace_upper_spaces)
qed

lemma nonspace_upper_drop_end:
  "filter (\<lambda>c. \<not> is_space c) (py_upper (rev (dropWhile is_space (rev ys)))) =
   filter (\<lambda>c. \<not> is_space c) (py_upper ys)"
proof -
  let ?k = "rev (dropWhile is_space (rev ys))"
  let ?w = "rev (takeWhile is_space (rev ys))"
  have "rev ys = takeWhile is_space (rev ys) @ dropWhile is_space (rev ys)" by simp
  then have "rev (rev ys) = ?k @ ?w" by (metis rev_append)
  then have split: "ys = ?k @ ?w" by simp
  have spaces: "\<forall>c\<in>set ?w. is_space c"
    by (auto dest: set_takeWhileD)
  have "filter (\<lambda>c. \<not> is_space c) (py_upper ys) =
        filter (\<lambda>c. \<not> is_space c) (py_upper (?k @ ?w))"
    using split by simp
  also have "\<dots> = filter (\<lambda>c. \<not> is_space c) (py_upper ?k)"
    by (simp only: nonspace_upper_append nonspace_upper_spaces [OF spaces] append_Nil2)
  finally show ?thesis by simp
qed

lemma normalize_passport_spec: "normalize_passport text = spec_normalize text"
  by (simp add: normalize_passport_def spec_normalize_def py_strip_def
      nonspace_upper_drop_end nonspace_upper_drop_front)

lemma spec_normalize_no_space: "c \<in> set (spec_normalize text) \<Longrightarrow> \<not> is_space c"
  by (simp add: spec_normalize_def)

lemma is_space_newline: "is_space 10"
  by code_simp

lemma dollar_match_no_space:
  assumes "\<forall>c\<in>set s. \<not> is_space c"
  shows "dollar_match body s = body s"
proof -
  have "s \<noteq> [] \<Longrightarrow> last s \<noteq> 10"
    using assms is_space_newline last_in_set by metis
  then show ?thesis by (auto simp: dollar_match_def)
qed

lemma PASSPORT_RE_match_normalized:
  "PASSPORT_RE_match (spec_normalize text) = passport_body (spec_normalize text)"
  unfolding PASSPORT_RE_match_def
  by (rule dollar_match_no_space) (simp add: spec_normalize_no_space)

text \<open>
  C7. A passport input is accepted exactly when, in upper case and with all whitespace
  removed, it is two letters \<open>A\<close> to \<open>Z\<close> followed by seven decimal digits: then the
  normalized text is stored in the context and its state becomes the one waiting for
  the birthdate; otherwise the user is asked again and the context is unchanged.
\<close>

theorem ask_birthdate_accepts_iff:
  "(passport_body (spec_normalize text) \<longrightarrow>
      ask_birthdate d ctx text =
        (d, ctx\<lparr>data_passport := Some (spec_normalize text), state := Some Reg_birthdate\<rparr>,
         [Answer Ask_birthdate])) \<and>
   (\<not> passport_body (spec_normalize text) \<longrightarrow>
      ask_birthdate d ctx text = (d, ctx, [Answer Bad_passport_format]))"
  by (simp add: ask_birthdate_def set_state_def normalize_passport_spec
      PASSPORT_RE_match_normalized)

lemma spec_normalize_short: "spec_normalize (ustr ''ab123'') = ustr ''AB123''"
  by code_simp

lemma spec_normalize_plain: "spec_normalize (ustr ''AD1234567'') = ustr ''AD1234567''"
  by code_simp

lemma spec_normalize_blanks: "spec_normalize (ustr '' ad 1234567 '') = ustr ''AD1234567''"
  by code_simp

lemma passport_body_short: "\<not> passport_body (ustr ''AB123'')"
  by code_simp

lemma passport_body_plain: "passport_body (ustr ''AD1234567'')"
  by code_simp

text \<open>
  Outside ASCII: a no-break space inside the input is removed, dotless i and long s
  become \<open>I\<close> and \<open>S\<close>, and Arabic-Indic digits are decimal digits.
\<close>

lemma spec_normalize_nbsp:
  "spec_normalize (ustr ''AD'' @ [0xA0] @ ustr ''1234567'') = ustr ''AD1234567''"
  by code_simp

lemma spec_normalize_dotless:
  "spec_normalize ([0x131, 0x17F] @ ustr ''1234567'') = ustr ''IS1234567''"
  by code_simp

lemma passport_body_dotless: "passport_body (ustr ''IS1234567'')"
  by code_simp

lemma spec_normalize_arabic:
  "spec_normalize (ustr ''ad'' @ [0x661, 0x662, 0x663, 0x664, 0x665, 0x666, 0x667]) =
     ustr ''AD'' @ [0x661, 0x662, 0x663, 0x664, 0x665, 0x666, 0x667]"
  by code_simp

lemma passport_body_arabic:
  "passport_body (ustr ''AD'' @ [0x661, 0x662, 0x663, 0x664, 0x665, 0x666, 0x667])"
  by code_simp

theorem ask_birthdate_accepts_iff_witness:
  "\<not> passport_body (spec_normalize (ustr ''ab123'')) \<and>
   ask_birthdate db0 ctx_passport (ustr ''ab123'') =
     (db0, ctx_passport, [Answer Bad_passport_format]) \<and>
   passport_body (spec_normalize (ustr ''AD1234567'')) \<and>
   ask_birthdate db0 ctx_passport (ustr ''AD1234567'') =
     (db0, \<lparr>state = Some Reg_birthdate, data_passport = Some (ustr ''AD1234567''),
            data_tardy_reason = None, data_tardy_start = None\<rparr>, [Answer Ask_birthdate]) \<and>
   passport_body (spec_normalize (ustr '' ad 1234567 '')) \<and>
   ask_birthdate db0 ctx_passport (ustr '' ad 1234567 '') =
     (db0, \<lparr>state = Some Reg_birthdate, data_passport = Some (ustr ''AD1234567''),
            data_tardy_reason = None, data_tardy_start = None\<rparr>, [Answer Ask_birthdate]) \<and>
   passport_body (spec_normalize (ustr ''AD'' @ [0xA0] @ ustr ''1234567'')) \<and>
   ask_birthdate db0 ctx_passport (ustr ''AD'' @ [0xA0] @ ustr ''1234567'') =
     (db0, \<lparr>state = Some Reg_birthdate, data_passport = Some (ustr ''AD1234567''),
            data_tardy_reason = None, data_tardy_start = None\<rparr>, [Answer Ask_birthdate]) \<and>
   passport_body (spec_normalize ([0x131, 0x17F] @ ustr ''1234567'')) \<and>
   ask_birthdate db0 ctx_passport ([0x131, 0x17F] @ ustr ''1234567'') =
     (db0, \<lparr>state = Some Reg_birthdate, data_passport = Some (ustr ''IS1234567''),
            data_tardy_reason = None, data_tardy_start = None\<rparr>, [Answer Ask_birthdate]) \<and>
   passport_body
     (spec_normalize (ustr ''ad'' @ [0x661, 0x662, 0x663, 0x664, 0x665, 0x666, 0x667])) \<and>
   ask_birthdate db0 ctx_passport
       (ustr ''ad'' @ [0x661, 0x662, 0x663, 0x664, 0x665, 0x666, 0x667]) =
     (db0, \<lparr>state = Some Reg_birthdate,
            data_passport =
              Some (ustr ''AD'' @ [0x661, 0x662, 0x663, 0x664, 0x665, 0x666, 0x667]),
            data_tardy_reason = None, data_tardy_start = None\<rparr>, [Answer Ask_birthdate])"
  using ask_birthdate_accepts_iff [of "ustr ''ab123''" db0 ctx_passport]
        ask_birthdate_accepts_iff [of "ustr ''AD1234567''" db0 ctx_passport]
        ask_birthdate_accepts_iff [of "ustr '' ad 1234567 ''" db0 ctx_passport]
        ask_birthdate_accepts_iff [of "ustr ''AD'' @ [0xA0] @ ustr ''1234567''" db0 ctx_passport]
        ask_birthdate_accepts_iff [of "[0x131, 0x17F] @ ustr ''1234567''" db0 ctx_passport]
        ask_birthdate_accepts_iff
          [of "ustr ''ad'' @ [0x661, 0x662, 0x663, 0x664, 0x665, 0x666, 0x667]" db0 ctx_passport]
  unfolding spec_normalize_short spec_normalize_plain spec_normalize_blanks
    spec_normalize_nbsp spec_normalize_dotless spec_normalize_arabic
  by (simp add: passport_body_short passport_body_plain passport_body_dotless
      passport_body_arabic ctx_passport_def)
section \<open>Properties of the last step of the tardy flow\<close>

lemma parse_time_hhmm_empty: "parse_time_hhmm [] = None"
  by (simp add: parse_time_hhmm_def py_strip_def TIME_RE_match_def dollar_match_def time_body_def)

lemma dtime_total: "\<not> dtime_less a b \<Longrightarrow> dtime_le b a"
  by (cases a, cases b) (auto simp: dtime_le_def)

text \<open>The handler once both times have been read.\<close>

lemma tardy_end_time_final:
  assumes "parse_time_hhmm (py_strip text) = Some e_time"
      and "data_tardy_start ctx = Some start_str"
      and "parse_time_hhmm start_str = Some s_time"
  shows "tardy_end_time clk delivered d ctx user_id text =
     (if dtime_less e_time s_time then Inr (d, ctx, [Answer End_before_start])
      else
        (case get_user d user_id of
           None \<Rightarrow> Inr (d, fsm_clear ctx, [Answer Register_first_again])
         | Some u \<Rightarrow>
             (let manager = py_strip (str_or_empty (supervisor_tg_id u)) in
              if \<not> py_isdigit manager then
                Inr (d, fsm_clear ctx, [Answer No_valid_manager_id])
              else
                (case create_tardy_request clk d user_id manager (data_tardy_reason ctx)
                        (Some start_str) (Some (py_strip text)) of
                   Inl e \<Rightarrow> Inl e
                 | Inr (d', req_id) \<Rightarrow>
                     (case py_int manager of
                        None \<Rightarrow> Inr (d', fsm_clear ctx, [Answer Request_not_delivered])
                      | Some chat \<Rightarrow>
                          if delivered then
                            Inr (d', fsm_clear ctx,
                                 [Notify_manager chat (full_name u) (Some start_str)
                                    (py_strip text) (data_tardy_reason ctx)
                                    (now_local_hm clk) req_id,
                                  Answer Request_sent])
                          else
                            Inr (d', fsm_clear ctx, [Answer Request_not_delivered]))))))"
proof -
  have ne: "start_str \<noteq> []"
    using assms(3) parse_time_hhmm_empty by auto
  show ?thesis
    using assms ne
    by (simp add: tardy_end_time_def Let_def falsy_def str_opt_def)
qed

text \<open>
  C5. With a start time and an end time that both parse, an end earlier than the start
  only asks for the end time again: the store and the conversation context, with its
  state, reason and start time, are unchanged. Whenever the handler adds a request, the
  end is not earlier than the start.
\<close>

theorem tardy_end_time_order:
  assumes "parse_time_hhmm (py_strip text) = Some e_time"
      and "data_tardy_start ctx = Some start_str"
      and "parse_time_hhmm start_str = Some s_time"
  shows "(dtime_less e_time s_time \<longrightarrow>
            tardy_end_time clk delivered d ctx user_id text =
              Inr (d, ctx, [Answer End_before_start])) \<and>
         (\<forall>d' ctx' out.
            tardy_end_time clk delivered d ctx user_id text = Inr (d', ctx', out) \<and>
            tardy_requests d' \<noteq> tardy_requests d \<longrightarrow> dtime_le s_time e_time)"
  unfolding tardy_end_time_final [OF assms]
  by (auto simp: Let_def dtime_total split: option.splits if_splits sum.splits)

lemma strip_0920: "py_strip (ustr ''09:20'') = (ustr ''09:20'')" by code_simp
lemma strip_0945: "py_strip (ustr ''09:45'') = (ustr ''09:45'')" by code_simp
lemma parse_0920: "parse_time_hhmm (ustr ''09:20'') = Some (dtime 9 20)" by code_simp
lemma parse_0945: "parse_time_hhmm (ustr ''09:45'') = Some (dtime 9 45)" by code_simp
lemma less_0920_0945: "dtime_less (dtime 9 20) (dtime 9 45)" by code_simp
lemma not_less_0945_0920: "\<not> dtime_less (dtime 9 45) (dtime 9 20)" by code_simp
lemma now_local_hm_clock0: "now_local_hm clock0 = (ustr ''09:30'')" by code_simp
lemma last_rowid_db1: "last_rowid db1 = 0" by (simp add: last_rowid_def db1_def)
lemma last_rowid_db2: "last_rowid db2 = 0" by (simp add: last_rowid_def db2_def)
lemma manager_user1: "py_strip (str_or_empty (supervisor_tg_id user1)) = (ustr ''2002'')" by code_simp
lemma manager_user2: "py_strip (str_or_empty (supervisor_tg_id user2)) = (ustr ''20020'')" by code_simp
lemma manager_user3: "py_strip (str_or_empty (supervisor_tg_id user3)) = []" by code_simp
lemma isdigit_2002: "py_isdigit (ustr ''2002'')" by code_simp
lemma isdigit_20020: "py_isdigit (ustr ''20020'')" by code_simp
lemma not_isdigit_blank: "\<not> py_isdigit (ustr '' 20020 '')" by code_simp
lemma not_isdigit_empty: "\<not> py_isdigit []" by code_simp
lemma py_int_2002: "py_int (ustr ''2002'') = Some 2002" by code_simp
lemma py_int_20020: "py_int (ustr ''20020'') = Some 20020" by code_simp

lemma fsm_clear_idle: "fsm_clear c = ctx_idle"
  by (simp add: fsm_clear_def ctx_idle_def)

lemma create_in_db1:
  "create_tardy_request clock0 db1 (ustr ''1001'') (ustr ''2002'') (Some (ustr ''traffic'')) (Some (ustr ''09:20''))
     (Some (ustr ''09:45'')) = Inr (db3, 1)"
  by (simp add: create_tardy_request_def last_rowid_db1 submitted_now_str_clock0 Let_def)
     (simp add: db1_def db3_def request1_def)

lemma tardy_end_time_sample:
  "tardy_end_time clock0 True db1 (ctx_end (ustr ''09:20'')) (ustr ''1001'') (ustr ''09:45'') =
     Inr (db3, ctx_idle,
          [Notify_manager 2002 (Some (ustr ''Ann'')) (Some (ustr ''09:20'')) (ustr ''09:45'') (Some (ustr ''traffic''))
             (ustr ''09:30'') 1,
           Answer Request_sent])"
proof -
  have a: "parse_time_hhmm (py_strip (ustr ''09:45'')) = Some (dtime 9 45)"
    by (simp add: strip_0945 parse_0945)
  have b: "data_tardy_start (ctx_end (ustr ''09:20'')) = Some (ustr ''09:20'')"
    by (simp add: ctx_end_def)
  have c: "data_tardy_reason (ctx_end (ustr ''09:20'')) = Some (ustr ''traffic'')"
    by (simp add: ctx_end_def)
  have n: "full_name user1 = Some (ustr ''Ann'')" by (simp add: user1_def)
  show ?thesis
    unfolding tardy_end_time_final [OF a b parse_0920]
    by (simp add: not_less_0945_0920 get_user_db1 manager_user1 isdigit_2002 c strip_0945
        create_in_db1 py_int_2002 now_local_hm_clock0 n fsm_clear_idle)
qed

text \<open>The examples of the specification: 09:20 to 09:45 is created, 09:45 to 09:20 asks again.\<close>

theorem tardy_end_time_order_witness:
  "parse_time_hhmm (py_strip (ustr ''09:20'')) = Some (dtime 9 20) \<and>
   data_tardy_start (ctx_end (ustr ''09:45'')) = Some (ustr ''09:45'') \<and>
   parse_time_hhmm (ustr ''09:45'') = Some (dtime 9 45) \<and>
   dtime_less (dtime 9 20) (dtime 9 45) \<and>
   tardy_end_time clock0 True db1 (ctx_end (ustr ''09:45'')) (ustr ''1001'') (ustr ''09:20'') =
     Inr (db1, ctx_end (ustr ''09:45''), [Answer End_before_start]) \<and>
   parse_time_hhmm (py_strip (ustr ''09:45'')) = Some (dtime 9 45) \<and>
   data_tardy_start (ctx_end (ustr ''09:20'')) = Some (ustr ''09:20'') \<and>
   parse_time_hhmm (ustr ''09:20'') = Some (dtime 9 20) \<and>
   tardy_end_time clock0 True db1 (ctx_end (ustr ''09:20'')) (ustr ''1001'') (ustr ''09:45'') =
     Inr (db3, ctx_idle,
          [Notify_manager 2002 (Some (ustr ''Ann'')) (Some (ustr ''09:20'')) (ustr ''09:45'') (Some (ustr ''traffic''))
             (ustr ''09:30'') 1,
           Answer Request_sent]) \<and>
   tardy_requests db3 \<noteq> tardy_requests db1 \<and>
   dtime_le (dtime 9 20) (dtime 9 45)"
proof -
  have a1: "parse_time_hhmm (py_strip (ustr ''09:20'')) = Some (dtime 9 20)"
    by (simp add: strip_0920 parse_0920)
  have b1: "data_tardy_start (ctx_end (ustr ''09:45'')) = Some (ustr ''09:45'')"
    by (simp add: ctx_end_def)
  have a2: "parse_time_hhmm (py_strip (ustr ''09:45'')) = Some (dtime 9 45)"
    by (simp add: strip_0945 parse_0945)
  have b2: "data_tardy_start (ctx_end (ustr ''09:20'')) = Some (ustr ''09:20'')"
    by (simp add: ctx_end_def)
  have ne: "tardy_requests db3 \<noteq> tardy_requests db1"
    by (simp add: db3_def db1_def)
  from tardy_end_time_order [OF a1 b1 parse_0945, of clock0 True db1 "(ustr ''1001'')"]
  have r1: "tardy_end_time clock0 True db1 (ctx_end (ustr ''09:45'')) (ustr ''1001'') (ustr ''09:20'') =
              Inr (db1, ctx_end (ustr ''09:45''), [Answer End_before_start])"
    using less_0920_0945 by blast
  from tardy_end_time_order [OF a2 b2 parse_0920, of clock0 True db1 "(ustr ''1001'')"]
  have r2: "dtime_le (dtime 9 20) (dtime 9 45)"
    using tardy_end_time_sample ne by blast
  from a1 b1 a2 b2 ne r1 r2 show ?thesis
    by (simp add: parse_0920 parse_0945 less_0920_0945 tardy_end_time_sample)
qed

text \<open>
  C6 (as amended). At the last step, once the times are in order and the user exists,
  the approver is the stored supervisor id with surrounding whitespace stripped. When
  that text is not all digits (in particular when no supervisor is stored, or an empty
  one) the flow answers that no valid manager id is configured, leaves the store
  unchanged and leaves the conversation with no state and no data. A request that is
  added carries the stripped, all-digits text as its approver.
\<close>

theorem tardy_end_time_approver:
  assumes "parse_time_hhmm (py_strip text) = Some e_time"
      and "data_tardy_start ctx = Some start_str"
      and "parse_time_hhmm start_str = Some s_time"
      and "\<not> dtime_less e_time s_time"
      and "get_user d user_id = Some u"
  shows "(\<not> py_isdigit (py_strip (str_or_empty (supervisor_tg_id u))) \<longrightarrow>
            tardy_end_time clk delivered d ctx user_id text =
              Inr (d, \<lparr>state = None, data_passport = None, data_tardy_reason = None,
                      data_tardy_start = None\<rparr>, [Answer No_valid_manager_id])) \<and>
         (\<forall>d' ctx' out.
            tardy_end_time clk delivered d ctx user_id text = Inr (d', ctx', out) \<and>
            tardy_requests d' \<noteq> tardy_requests d \<longrightarrow>
            py_isdigit (py_strip (str_or_empty (supervisor_tg_id u))) \<and>
            (\<exists>r. tardy_requests d' = tardy_requests d @ [r] \<and>
                 manager_tg_id r = Some (py_strip (str_or_empty (supervisor_tg_id u)))))"
  unfolding tardy_end_time_final [OF assms(1-3)]
  using assms(4,5)
  by (auto simp: Let_def create_tardy_request_def fsm_clear_def
      split: option.splits if_splits sum.splits)

lemma get_user_db2: "get_user db2 (ustr ''1001'') = Some user2"
  by (simp add: get_user_def db2_def)

lemma get_user_db5: "get_user db5 (ustr ''1001'') = Some user3"
  by (simp add: get_user_def db5_def)

lemma create_in_db2:
  "create_tardy_request clock0 db2 (ustr ''1001'') (ustr ''20020'') (Some (ustr ''traffic'')) (Some (ustr ''09:20''))
     (Some (ustr ''09:45'')) =
   Inr (db2\<lparr>tardy_requests := [request1\<lparr>manager_tg_id := Some (ustr ''20020'')\<rparr>], tardy_seq := 1\<rparr>, 1)"
  by (simp add: create_tardy_request_def last_rowid_db2 submitted_now_str_clock0 Let_def)
     (simp add: db2_def request1_def)

text \<open>
  A supervisor id stored as \<open>" 20020 "\<close> is not all digits, yet the flow does not abort:
  the request is created for the approver \<open>"20020"\<close>.
\<close>

theorem blank_padded_supervisor_counterexample:
  "get_user db2 (ustr ''1001'') = Some user2 \<and>
   supervisor_tg_id user2 = Some (ustr '' 20020 '') \<and>
   \<not> py_isdigit (ustr '' 20020 '') \<and>
   tardy_end_time clock0 True db2 (ctx_end (ustr ''09:20'')) (ustr ''1001'') (ustr ''09:45'') =
     Inr (db2\<lparr>tardy_requests := [request1\<lparr>manager_tg_id := Some (ustr ''20020'')\<rparr>], tardy_seq := 1\<rparr>,
          ctx_idle,
          [Notify_manager 20020 (Some (ustr ''Ann'')) (Some (ustr ''09:20'')) (ustr ''09:45'') (Some (ustr ''traffic''))
             (ustr ''09:30'') 1,
           Answer Request_sent])"
proof -
  have a: "parse_time_hhmm (py_strip (ustr ''09:45'')) = Some (dtime 9 45)"
    by (simp add: strip_0945 parse_0945)
  have b: "data_tardy_start (ctx_end (ustr ''09:20'')) = Some (ustr ''09:20'')"
    by (simp add: ctx_end_def)
  have c: "data_tardy_reason (ctx_end (ustr ''09:20'')) = Some (ustr ''traffic'')"
    by (simp add: ctx_end_def)
  have n: "full_name user2 = Some (ustr ''Ann'')" by (simp add: user2_def)
  have s: "supervisor_tg_id user2 = Some (ustr '' 20020 '')" by (simp add: user2_def)
  have "tardy_end_time clock0 True db2 (ctx_end (ustr ''09:20'')) (ustr ''1001'') (ustr ''09:45'') =
     Inr (db2\<lparr>tardy_requests := [request1\<lparr>manager_tg_id := Some (ustr ''20020'')\<rparr>], tardy_seq := 1\<rparr>,
          ctx_idle,
          [Notify_manager 20020 (Some (ustr ''Ann'')) (Some (ustr ''09:20'')) (ustr ''09:45'') (Some (ustr ''traffic''))
             (ustr ''09:30'') 1,
           Answer Request_sent])"
    unfolding tardy_end_time_final [OF a b parse_0920]
    by (simp add: not_less_0945_0920 get_user_db2 manager_user2 isdigit_20020 c strip_0945
        create_in_db2 py_int_20020 now_local_hm_clock0 n fsm_clear_idle)
  with s show ?thesis
    by (simp add: get_user_db2 not_isdigit_blank)
qed

theorem tardy_end_time_approver_witness:
  "parse_time_hhmm (py_strip (ustr ''09:45'')) = Some (dtime 9 45) \<and>
   data_tardy_start (ctx_end (ustr ''09:20'')) = Some (ustr ''09:20'') \<and>
   parse_time_hhmm (ustr ''09:20'') = Some (dtime 9 20) \<and>
   \<not> dtime_less (dtime 9 45) (dtime 9 20) \<and>
   get_user db5 (ustr ''1001'') = Some user3 \<and>
   \<not> py_isdigit (py_strip (str_or_empty (supervisor_tg_id user3))) \<and>
   tardy_end_time clock0 True db5 (ctx_end (ustr ''09:20'')) (ustr ''1001'') (ustr ''09:45'') =
     Inr (db5, ctx_idle, [Answer No_valid_manager_id]) \<and>
   get_user db1 (ustr ''1001'') = Some user1 \<and>
   tardy_end_time clock0 True db1 (ctx_end (ustr ''09:20'')) (ustr ''1001'') (ustr ''09:45'') =
     Inr (db3, ctx_idle,
          [Notify_manager 2002 (Some (ustr ''Ann'')) (Some (ustr ''09:20'')) (ustr ''09:45'') (Some (ustr ''traffic''))
             (ustr ''09:30'') 1,
           Answer Request_sent]) \<and>
   tardy_requests db3 \<noteq> tardy_requests db1 \<and>
   py_isdigit (py_strip (str_or_empty (supervisor_tg_id user1))) \<and>
   (\<exists>r. tardy_requests db3 = tardy_requests db1 @ [r] \<and>
        manager_tg_id r = Some (py_strip (str_or_empty (supervisor_tg_id user1))))"
proof -
  have a: "parse_time_hhmm (py_strip (ustr ''09:45'')) = Some (dtime 9 45)"
    by (simp add: strip_0945 parse_0945)
  have b: "data_tardy_start (ctx_end (ustr ''09:20'')) = Some (ustr ''09:20'')"
    by (simp add: ctx_end_def)
  have nd: "\<not> py_isdigit (py_strip (str_or_empty (supervisor_tg_id user3)))"
    by (simp add: manager_user3 not_isdigit_empty)
  have ne: "tardy_requests db3 \<noteq> tardy_requests db1"
    by (simp add: db3_def db1_def)
  from tardy_end_time_approver [OF a b parse_0920 not_less_0945_0920 get_user_db5,
      of clock0 True]
  have r1: "tardy_end_time clock0 True db5 (ctx_end (ustr ''09:20'')) (ustr ''1001'') (ustr ''09:45'') =
              Inr (db5, ctx_idle, [Answer No_valid_manager_id])"
    using nd unfolding ctx_idle_def by blast
  from tardy_end_time_approver [OF a b parse_0920 not_less_0945_0920 get_user_db1,
      of clock0 True]
  have r2: "py_isdigit (py_strip (str_or_empty (supervisor_tg_id user1))) \<and>
            (\<exists>r. tardy_requests db3 = tardy_requests db1 @ [r] \<and>
                 manager_tg_id r = Some (py_strip (str_or_empty (supervisor_tg_id user1))))"
    using tardy_end_time_sample ne by blast
  from a b nd ne r1 r2 show ?thesis
    by (simp add: parse_0920 not_less_0945_0920 get_user_db5 get_user_db1
        tardy_end_time_sample)
qed

section \<open>Properties of registration against the HR gateway\<close>

text \<open>
  C8. In the birthdate state, with a valid birthdate and the passport stored, a
  verification call that raises or that answers with a status other than 200 writes no
  user row (the store is unchanged) and leaves the conversation context as it was:
  still waiting for the birthdate, the passport still stored.
\<close>

theorem do_register_gateway_failure:
  assumes "valid_birthdate (py_strip text)"
      and "data_passport ctx = Some pp"
      and "(\<exists>e. reply = Transport_failure e) \<or> (\<exists>st js raw. reply = Http st js raw \<and> st \<noteq> 200)"
  shows "\<exists>out. do_register clk reply d ctx user_id text = Inr (d, ctx, out)"
  using assms
  by (auto simp: do_register_def register_in_1c_def Let_def split: json_body.splits)

lemma valid_birthdate_sample: "valid_birthdate (py_strip (ustr ''30.09.2005''))"
  by code_simp

theorem do_register_gateway_failure_witness:
  "valid_birthdate (py_strip (ustr ''30.09.2005'')) \<and>
   data_passport ctx_birthdate = Some (ustr ''AD1234567'') \<and>
   (\<exists>out. do_register clock0 (Transport_failure (ustr ''timeout'')) db0 ctx_birthdate (ustr ''1001'')
            (ustr ''30.09.2005'') = Inr (db0, ctx_birthdate, out)) \<and>
   (503::int) \<noteq> 200 \<and>
   (\<exists>out. do_register clock0 (Http 503 (JDict Map.empty) (ustr ''busy'')) db0 ctx_birthdate (ustr ''1001'')
            (ustr ''30.09.2005'') = Inr (db0, ctx_birthdate, out))"
proof -
  have p: "data_passport ctx_birthdate = Some (ustr ''AD1234567'')"
    by (simp add: ctx_birthdate_def)
  have t: "(\<exists>e. Transport_failure (ustr ''timeout'') = Transport_failure e) \<or>
           (\<exists>st js raw. Transport_failure (ustr ''timeout'') = Http st js raw \<and> st \<noteq> 200)"
    by simp
  have h: "(\<exists>e. Http 503 (JDict Map.empty) (ustr ''busy'') = Transport_failure e) \<or>
           (\<exists>st js raw. Http 503 (JDict Map.empty) (ustr ''busy'') = Http st js raw \<and> st \<noteq> 200)"
    by simp
  from do_register_gateway_failure [OF valid_birthdate_sample p t]
       do_register_gateway_failure [OF valid_birthdate_sample p h]
  show ?thesis using valid_birthdate_sample p by simp
qed

text \<open>
  A supervisor id reaches the store as the gateway sent it: a verification response
  carrying it between blanks registers the employee of \<open>db2\<close>.
\<close>

lemma strip_birthdate_sample: "py_strip (ustr ''30.09.2005'') = (ustr ''30.09.2005'')"
  by code_simp

lemma key_rukovoditel_other:
  "key_rukovoditel \<noteq> ustr ''fullName'' \<and> key_rukovoditel \<noteq> ustr ''supervisor_tg_id''"
  by code_simp

lemma body2_values:
  "py_or (js_get body2 (ustr ''fullName'')) (py_or (js_get body2 (ustr ''name'')) (JStr default_name)) = JStr (ustr ''Ann'')"
  "truthy (py_or (js_get body2 (ustr ''isManager'')) (py_or (js_get body2 (ustr ''is_manager''))
     (py_or (js_get body2 key_rukovoditel) (JBool False)))) = False"
  "py_or (js_get body2 (ustr ''supervisor_tg_id'')) (js_get body2 (ustr ''manager_tg_id'')) = JStr (ustr '' 20020 '')"
  by (simp_all add: body2_def js_get_def py_or_def key_rukovoditel_other)

lemma upsert_sample:
  "upsert_user clock0 db0 (ustr ''1001'') (ustr ''AD1234567'') (ustr ''30.09.2005'') (JStr (ustr ''Ann'')) False
     (JStr (ustr '' 20020 '')) = Inr db2"
  by (simp add: upsert_user_def sql_text_def local_now_clock0)
     (simp add: db0_def db2_def user2_def)

lemma registration_stores_padded_supervisor:
  "do_register clock0 (Http 200 (JDict body2) []) db0 ctx_birthdate (ustr ''1001'') (ustr ''30.09.2005'') =
     Inr (db2, ctx_idle,
          [Answer Syncing_with_1c, Answer_menu (Registration_done (ustr ''Ann'')) False])"
proof -
  have p: "data_passport ctx_birthdate = Some (ustr ''AD1234567'')"
    by (simp add: ctx_birthdate_def)
  have v: "valid_birthdate (ustr ''30.09.2005'')"
    using valid_birthdate_sample by (simp add: strip_birthdate_sample)
  show ?thesis
    by (simp add: do_register_def strip_birthdate_sample v p register_in_1c_def Let_def
        body2_values upsert_sample fsm_clear_idle)
qed

section \<open>Properties of the supervisor sync\<close>

text \<open>The search finds nothing exactly when no position of the text starts five digits.\<close>

lemma search_digits5_None_iff:
  "search_digits5 s = None \<longleftrightarrow> (\<forall>i. length (takeWhile is_decimal (drop i s)) < 5)"
proof (induction s)
  case Nil
  then show ?case by simp
next
  case (Cons c cs)
  have split: "(\<forall>i. length (takeWhile is_decimal (drop i (c # cs))) < 5) \<longleftrightarrow>
        length (takeWhile is_decimal (c # cs)) < 5 \<and>
        (\<forall>i. length (takeWhile is_decimal (drop i cs)) < 5)"
  proof
    assume h: "\<forall>i. length (takeWhile is_decimal (drop i (c # cs))) < 5"
    show "length (takeWhile is_decimal (c # cs)) < 5 \<and>
        (\<forall>i. length (takeWhile is_decimal (drop i cs)) < 5)"
    proof
      from h [rule_format, of 0] show "length (takeWhile is_decimal (c # cs)) < 5" by simp
      show "\<forall>i. length (takeWhile is_decimal (drop i cs)) < 5"
      proof
        fix i from h [rule_format, of "Suc i"]
        show "length (takeWhile is_decimal (drop i cs)) < 5" by simp
      qed
    qed
  next
    assume h: "length (takeWhile is_decimal (c # cs)) < 5 \<and>
        (\<forall>i. length (takeWhile is_decimal (drop i cs)) < 5)"
    show "\<forall>i. length (takeWhile is_decimal (drop i (c # cs))) < 5"
    proof
      fix i show "length (takeWhile is_decimal (drop i (c # cs))) < 5"
        using h by (cases i) simp_all
    qed
  qed
  show ?case
    unfolding split using Cons.IH by (simp add: Let_def not_le)
qed

text \<open>
  C10 (as amended). For a registered user with a passport and a birthdate stored, when
  the sync call completes with a response, of any status, whose body is a JSON object
  (or cannot be decoded, which counts as the empty object) and whose scanned value
  holds no run of five or more decimal digits, the stored supervisor is overwritten
  with NULL, whatever it was, and the handler answers that no supervisor id came back.
  When the body decodes to something that is no object, the lookup raises before the
  write: the store is unchanged and the handler reports the error.
\<close>

theorem sync_overwrites_supervisor_with_null:
  assumes "get_user d user_id = Some u"
      and "\<not> falsy (passport u)"
      and "\<not> falsy (birthdate u)"
  shows "(search_digits5 (py_str (raw_id j)) = None \<longrightarrow>
            sync_supervisor_from_1c (Http st (JDict j) txt) d user_id =
              Inr (d\<lparr>users := (users d)(user_id \<mapsto> u\<lparr>supervisor_tg_id := None\<rparr>)\<rparr>, None) \<and>
            sync_with_1c (Http st (JDict j) txt) d user_id =
              (d\<lparr>users := (users d)(user_id \<mapsto> u\<lparr>supervisor_tg_id := None\<rparr>)\<rparr>,
               [Answer Sync_started, Answer Sync_no_supervisor])) \<and>
         sync_supervisor_from_1c (Http st JNotDict txt) d user_id = Inl AttributeError \<and>
         sync_with_1c (Http st JNotDict txt) d user_id =
           (d, [Answer Sync_started, Answer (Sync_error AttributeError)])"
  using assms
  by (simp add: sync_with_1c_def sync_supervisor_from_1c_def set_user_supervisor_def
      get_user_def Let_def)

lemma not_falsy_user1: "\<not> falsy (passport user1) \<and> \<not> falsy (birthdate user1)"
  by (simp add: falsy_def user1_def)

lemma raw_id_sample:
  "raw_id [ustr ''manager'' \<mapsto> JStr (ustr ''id 1234'')] = JStr (ustr ''id 1234'')"
  by (simp add: raw_id_def js_get_def py_or_def)

lemma search_digits5_sample: "search_digits5 (ustr ''id 1234'') = None"
  by code_simp

text \<open>
  A body that is no object, here the JSON value \<open>null\<close>: the response completes and no
  scanned key holds a digit, yet the stored supervisor \<open>2002\<close> stays.
\<close>

theorem sync_body_not_object_counterexample:
  "get_user db1 (ustr ''1001'') = Some user1 \<and>
   supervisor_tg_id user1 = Some (ustr ''2002'') \<and>
   \<not> falsy (passport user1) \<and> \<not> falsy (birthdate user1) \<and>
   sync_supervisor_from_1c (Http 200 JNotDict (ustr ''null'')) db1 (ustr ''1001'') =
     Inl AttributeError \<and>
   sync_with_1c (Http 200 JNotDict (ustr ''null'')) db1 (ustr ''1001'') =
     (db1, [Answer Sync_started, Answer (Sync_error AttributeError)])"
proof -
  have p: "\<not> falsy (passport user1)" and b: "\<not> falsy (birthdate user1)"
    using not_falsy_user1 by simp_all
  have v: "supervisor_tg_id user1 = Some (ustr ''2002'')"
    by (simp add: user1_def)
  have f: "sync_supervisor_from_1c (Http 200 JNotDict (ustr ''null'')) db1 (ustr ''1001'') =
             Inl AttributeError"
    using p b by (simp add: sync_supervisor_from_1c_def get_user_db1)
  have h: "sync_with_1c (Http 200 JNotDict (ustr ''null'')) db1 (ustr ''1001'') =
             (db1, [Answer Sync_started, Answer (Sync_error AttributeError)])"
    by (simp add: sync_with_1c_def get_user_db1 f)
  show ?thesis by (intro conjI get_user_db1 v p b f h)
qed

theorem sync_overwrites_supervisor_with_null_witness:
  "get_user db1 (ustr ''1001'') = Some user1 \<and>
   supervisor_tg_id user1 = Some (ustr ''2002'') \<and>
   \<not> falsy (passport user1) \<and> \<not> falsy (birthdate user1) \<and>
   search_digits5 (py_str (raw_id [ustr ''manager'' \<mapsto> JStr (ustr ''id 1234'')])) = None \<and>
   sync_supervisor_from_1c
       (Http 200 (JDict [ustr ''manager'' \<mapsto> JStr (ustr ''id 1234'')]) (ustr ''{}'')) db1
       (ustr ''1001'') =
     Inr (db1\<lparr>users := (users db1)(ustr ''1001'' \<mapsto> user1\<lparr>supervisor_tg_id := None\<rparr>)\<rparr>, None) \<and>
   sync_with_1c
       (Http 200 (JDict [ustr ''manager'' \<mapsto> JStr (ustr ''id 1234'')]) (ustr ''{}'')) db1
       (ustr ''1001'') =
     (db1\<lparr>users := (users db1)(ustr ''1001'' \<mapsto> user1\<lparr>supervisor_tg_id := None\<rparr>)\<rparr>,
      [Answer Sync_started, Answer Sync_no_supervisor]) \<and>
   sync_supervisor_from_1c (Http 502 JNotDict []) db1 (ustr ''1001'') = Inl AttributeError \<and>
   sync_with_1c (Http 502 JNotDict []) db1 (ustr ''1001'') =
     (db1, [Answer Sync_started, Answer (Sync_error AttributeError)])"
proof -
  have s: "search_digits5 (py_str (raw_id [ustr ''manager'' \<mapsto> JStr (ustr ''id 1234'')])) = None"
    by (simp only: raw_id_sample py_str.simps search_digits5_sample)
  have p: "\<not> falsy (passport user1)" and b: "\<not> falsy (birthdate user1)"
    using not_falsy_user1 by simp_all
  have v: "supervisor_tg_id user1 = Some (ustr ''2002'')"
    by (simp add: user1_def)
  note r = sync_overwrites_supervisor_with_null [OF get_user_db1 p b,
      of "[ustr ''manager'' \<mapsto> JStr (ustr ''id 1234'')]" 200 "ustr ''{}''"]
  note q = sync_overwrites_supervisor_with_null [OF get_user_db1 p b,
      of "[ustr ''manager'' \<mapsto> JStr (ustr ''id 1234'')]" 502 "[]"]
  from r s have r1: "sync_supervisor_from_1c
       (Http 200 (JDict [ustr ''manager'' \<mapsto> JStr (ustr ''id 1234'')]) (ustr ''{}'')) db1
       (ustr ''1001'') =
     Inr (db1\<lparr>users := (users db1)(ustr ''1001'' \<mapsto> user1\<lparr>supervisor_tg_id := None\<rparr>)\<rparr>, None)"
    by blast
  from r s have r2: "sync_with_1c
       (Http 200 (JDict [ustr ''manager'' \<mapsto> JStr (ustr ''id 1234'')]) (ustr ''{}'')) db1
       (ustr ''1001'') =
     (db1\<lparr>users := (users db1)(ustr ''1001'' \<mapsto> user1\<lparr>supervisor_tg_id := None\<rparr>)\<rparr>,
      [Answer Sync_started, Answer Sync_no_supervisor])"
    by blast
  from q have q1: "sync_supervisor_from_1c (Http 502 JNotDict []) db1 (ustr ''1001'') =
      Inl AttributeError"
    by blast
  from q have q2: "sync_with_1c (Http 502 JNotDict []) db1 (ustr ''1001'') =
      (db1, [Answer Sync_started, Answer (Sync_error AttributeError)])"
    by blast
  show ?thesis by (intro conjI get_user_db1 v p b s r1 r2 q1 q2)
qed

text \<open>Outside ASCII: a run of six Arabic-Indic digits is found and stored.\<close>

lemma search_digits5_arabic:
  "search_digits5 (ustr ''id '' @ [0x661, 0x662, 0x663, 0x664, 0x665, 0x666]) =
     Some [0x661, 0x662, 0x663, 0x664, 0x665, 0x666]"
  by code_simp

lemma sync_stores_arabic_digits:
  "sync_supervisor_from_1c
       (Http 200 (JDict [ustr ''manager'' \<mapsto>
          JStr (ustr ''id '' @ [0x661, 0x662, 0x663, 0x664, 0x665, 0x666])]) []) db1
       (ustr ''1001'') =
     Inr (db1\<lparr>users := (users db1)(ustr ''1001'' \<mapsto>
            user1\<lparr>supervisor_tg_id := Some [0x661, 0x662, 0x663, 0x664, 0x665, 0x666]\<rparr>)\<rparr>,
          Some [0x661, 0x662, 0x663, 0x664, 0x665, 0x666])"
proof -
  have r: "raw_id [ustr ''manager'' \<mapsto>
             JStr (ustr ''id '' @ [0x661, 0x662, 0x663, 0x664, 0x665, 0x666])] =
           JStr (ustr ''id '' @ [0x661, 0x662, 0x663, 0x664, 0x665, 0x666])"
    by (simp add: raw_id_def js_get_def py_or_def)
  have p: "\<not> falsy (passport user1)" and b: "\<not> falsy (birthdate user1)"
    using not_falsy_user1 by simp_all
  show ?thesis
    using p b
    by (simp only: sync_supervisor_from_1c_def get_user_db1 option.case hr_reply.case
        json_body.case r py_str.simps search_digits5_arabic Let_def simp_thms if_False)
       (simp add: set_user_supervisor_def db1_def)
qed

section \<open>Properties of the approval handler\<close>

lemma find_map_status:
  "find (\<lambda>r. id_col r = k) (map (\<lambda>r. if id_col r = k then r\<lparr>status := st\<rparr> else r) xs) =
     map_option (\<lambda>r. r\<lparr>status := st\<rparr>) (find (\<lambda>r. id_col r = k) xs)"
  by (induction xs) auto

lemma get_tardy_set_tardy_status:
  "get_tardy (set_tardy_status d k st) k = map_option (\<lambda>r. r\<lparr>status := st\<rparr>) (get_tardy d k)"
  by (simp add: get_tardy_def set_tardy_status_def find_map_status)

lemma decided_request_refused:
  assumes "get_tardy d req_id = Some r" and "status r \<noteq> (ustr ''pending'')"
  shows "decision_action v cfg clk d from_id req_id = (d, [Alert Not_found_or_processed])"
  using assms by (cases v) (simp_all add: decision_action_def tardy_approve_def tardy_reject_def)

lemma authorized_decision_writes:
  assumes "get_tardy d req_id = Some r" and "status r = (ustr ''pending'')"
      and "from_id = str_opt (manager_tg_id r)"
  shows "fst (decision_action v cfg clk d from_id req_id) =
           set_tardy_status d req_id (case v of Approve \<Rightarrow> (ustr ''approved'') | Reject \<Rightarrow> (ustr ''rejected''))"
  using assms
  by (cases v) (simp_all add: decision_action_def tardy_approve_def tardy_reject_def Let_def)

text \<open>
  C1. After an authorized decision on a pending request, the request carries the status
  of that decision, and every further decision action on the same id, approve or
  reject, from any identity, is answered with the notice that the request was not found
  or is already processed and leaves the store as it is.
\<close>

theorem decision_applied_once:
  assumes "get_tardy d req_id = Some r"
      and "status r = (ustr ''pending'')"
      and "from_id = str_opt (manager_tg_id r)"
  shows "\<exists>d1 out1.
           decision_action v1 cfg clk d from_id req_id = (d1, out1) \<and>
           map_option status (get_tardy d1 req_id) =
             Some (case v1 of Approve \<Rightarrow> (ustr ''approved'') | Reject \<Rightarrow> (ustr ''rejected'')) \<and>
           (\<forall>v2 cfg2 clk2 from2.
              decision_action v2 cfg2 clk2 d1 from2 req_id = (d1, [Alert Not_found_or_processed]))"
proof -
  let ?st = "case v1 of Approve \<Rightarrow> (ustr ''approved'') | Reject \<Rightarrow> (ustr ''rejected'')"
  let ?d1 = "set_tardy_status d req_id ?st"
  obtain out1 where run: "decision_action v1 cfg clk d from_id req_id = (?d1, out1)"
    using authorized_decision_writes [OF assms, of v1 cfg clk]
    by (cases "decision_action v1 cfg clk d from_id req_id") simp
  have row: "get_tardy ?d1 req_id = Some (r\<lparr>status := ?st\<rparr>)"
    using assms(1) by (simp add: get_tardy_set_tardy_status)
  have decided: "status (r\<lparr>status := ?st\<rparr>) \<noteq> (ustr ''pending'')"
    by (cases v1) simp_all
  have again: "\<forall>v2 cfg2 clk2 from2.
      decision_action v2 cfg2 clk2 ?d1 from2 req_id = (?d1, [Alert Not_found_or_processed])"
    using decided_request_refused [OF row decided] by blast
  from run row again show ?thesis by auto
qed

text \<open>
  C2 (as amended). A decision action from an identity other than the approver stored
  in the request leaves the store unchanged, whether the request is pending or decided.
  The answer is the missing-rights notice when the request is pending, and the notice
  that the request was not found or is already processed when it is decided.
\<close>

theorem decision_by_other_identity:
  assumes "get_tardy d req_id = Some r"
      and "from_id \<noteq> str_opt (manager_tg_id r)"
  shows "decision_action v cfg clk d from_id req_id =
           (d, [Alert (if status r = (ustr ''pending'') then Not_enough_rights
                       else Not_found_or_processed)])"
  using assms by (cases v) (simp_all add: decision_action_def tardy_approve_def tardy_reject_def)

lemma get_tardy_db3: "get_tardy db3 1 = Some request1"
  by (simp add: get_tardy_def db3_def request1_def)

lemma get_tardy_db4: "get_tardy db4 1 = Some (request1\<lparr>status := (ustr ''approved'')\<rparr>)"
  by (simp add: get_tardy_def db4_def request1_def)

lemma request1_fields:
  "status request1 = (ustr ''pending'')" "manager_tg_id request1 = Some (ustr ''2002'')"
  "employee_tg_id request1 = (ustr ''1001'')" "id_col request1 = 1"
  by (simp_all add: request1_def)

lemma set_status_db3: "set_tardy_status db3 1 (ustr ''approved'') = db4"
  by (simp add: set_tardy_status_def db3_def db4_def request1_def)

lemma approve_sample:
  "decision_action Approve cfg0 clock0 db3 (ustr ''2002'') 1 =
     (db4, [Edit_status Approved, Notify_employee (ustr ''1001'') request1 (ustr ''Ann'') (ustr ''2002'') Approved,
            Callback_answer Approved])"
  by (simp add: decision_action_def tardy_approve_def get_tardy_db3 request1_fields str_opt_def
      set_status_db3 Let_def send_decision_to_1c_def cfg0_def falsy_def)
     (simp add: db4_def get_user_def get_user_opt_def name_or_def user1_def falsy_def str_opt_def)

theorem decision_applied_once_witness:
  "get_tardy db3 1 = Some request1 \<and>
   status request1 = (ustr ''pending'') \<and>
   (ustr ''2002'') = str_opt (manager_tg_id request1) \<and>
   decision_action Approve cfg0 clock0 db3 (ustr ''2002'') 1 =
     (db4, [Edit_status Approved, Notify_employee (ustr ''1001'') request1 (ustr ''Ann'') (ustr ''2002'') Approved,
            Callback_answer Approved]) \<and>
   map_option status (get_tardy db4 1) = Some (ustr ''approved'') \<and>
   decision_action Reject cfg0 clock0 db4 (ustr ''2002'') 1 = (db4, [Alert Not_found_or_processed]) \<and>
   decision_action Approve cfg0 clock0 db4 (ustr ''9999'') 1 = (db4, [Alert Not_found_or_processed])"
proof -
  have m: "(ustr ''2002'') = str_opt (manager_tg_id request1)"
    by (simp add: request1_fields str_opt_def)
  from decision_applied_once [OF get_tardy_db3 request1_fields(1) m, of Approve cfg0 clock0]
  obtain d1 out1 where
    run: "decision_action Approve cfg0 clock0 db3 (ustr ''2002'') 1 = (d1, out1)" and
    st: "map_option status (get_tardy d1 1) = Some (ustr ''approved'')" and
    again: "\<forall>v2 cfg2 clk2 from2.
              decision_action v2 cfg2 clk2 d1 from2 1 = (d1, [Alert Not_found_or_processed])"
    by auto
  from run approve_sample have d1: "d1 = db4" by simp
  from again d1 have
    a1: "decision_action Reject cfg0 clock0 db4 (ustr ''2002'') 1 = (db4, [Alert Not_found_or_processed])"
    and a2: "decision_action Approve cfg0 clock0 db4 (ustr ''9999'') 1 = (db4, [Alert Not_found_or_processed])"
    by blast+
  from st d1 have s4: "map_option status (get_tardy db4 1) = Some (ustr ''approved'')" by simp
  show ?thesis
    by (intro conjI get_tardy_db3 request1_fields(1) m approve_sample s4 a1 a2)
qed

lemma other_identity: "(ustr ''9999'') \<noteq> str_opt (manager_tg_id request1)"
  by (simp add: request1_fields str_opt_def)

lemma other_identity_decided:
  "(ustr ''9999'') \<noteq> str_opt (manager_tg_id (request1\<lparr>status := (ustr ''approved'')\<rparr>))"
  by (simp add: request1_fields str_opt_def)

text \<open>
  On a request that is already approved, an action from another identity is answered
  with the already-processed notice, not with the missing-rights notice.
\<close>

theorem decided_request_other_identity_counterexample:
  "get_tardy db4 1 = Some (request1\<lparr>status := (ustr ''approved'')\<rparr>) \<and>
   (ustr ''9999'') \<noteq> str_opt (manager_tg_id (request1\<lparr>status := (ustr ''approved'')\<rparr>)) \<and>
   decision_action Approve cfg0 clock0 db4 (ustr ''9999'') 1 = (db4, [Alert Not_found_or_processed]) \<and>
   decision_action Approve cfg0 clock0 db4 (ustr ''9999'') 1 \<noteq> (db4, [Alert Not_enough_rights])"
proof -
  have r: "decision_action Approve cfg0 clock0 db4 (ustr ''9999'') 1 =
             (db4, [Alert Not_found_or_processed])"
    by (simp add: decision_action_def tardy_approve_def get_tardy_db4)
  then have n: "decision_action Approve cfg0 clock0 db4 (ustr ''9999'') 1 \<noteq>
                  (db4, [Alert Not_enough_rights])"
    by simp
  show ?thesis by (intro conjI get_tardy_db4 other_identity_decided r n)
qed

theorem decision_by_other_identity_witness:
  "get_tardy db3 1 = Some request1 \<and>
   (ustr ''9999'') \<noteq> str_opt (manager_tg_id request1) \<and>
   decision_action Reject cfg0 clock0 db3 (ustr ''9999'') 1 = (db3, [Alert Not_enough_rights]) \<and>
   get_tardy db4 1 = Some (request1\<lparr>status := (ustr ''approved'')\<rparr>) \<and>
   (ustr ''9999'') \<noteq> str_opt (manager_tg_id (request1\<lparr>status := (ustr ''approved'')\<rparr>)) \<and>
   decision_action Reject cfg0 clock0 db4 (ustr ''9999'') 1 = (db4, [Alert Not_found_or_processed])"
proof -
  from decision_by_other_identity [OF get_tardy_db3 other_identity, of Reject cfg0 clock0]
  have r1: "decision_action Reject cfg0 clock0 db3 (ustr ''9999'') 1 = (db3, [Alert Not_enough_rights])"
    by (simp add: request1_fields)
  from decision_by_other_identity [OF get_tardy_db4 other_identity_decided, of Reject cfg0 clock0]
  have r2: "decision_action Reject cfg0 clock0 db4 (ustr ''9999'') 1 =
              (db4, [Alert Not_found_or_processed])"
    by simp
  show ?thesis
    by (intro conjI get_tardy_db3 other_identity r1 get_tardy_db4 other_identity_decided r2)
qed

section \<open>Text outside ASCII\<close>

text \<open>
  The whitespace, digit and case tables on inputs beyond ASCII: a no-break space is
  stripped; the directives of \<open>strptime\<close> want the leading digit of an hour or minute in
  ASCII and take any decimal digit after it; a year may be written in full-width
  digits; \<open>isdigit\<close> accepts a superscript two, which \<open>int\<close> refuses.
\<close>

lemma strip_no_break_space:
  "py_strip ([0xA0] @ ustr ''09:20'' @ [0xA0]) = ustr ''09:20''"
  by code_simp

lemma parse_time_mixed_digits: "parse_time_hhmm [48, 0x669, 58, 50, 0x660] = Some (dtime 9 20)"
  by code_simp

lemma parse_time_arabic_digits: "parse_time_hhmm [0x660, 0x669, 58, 0x662, 0x660] = None"
  by code_simp

lemma parse_time_out_of_range:
  "parse_time_hhmm (ustr ''24:00'') = None \<and> parse_time_hhmm (ustr ''09:60'') = None"
  by code_simp

lemma valid_birthdate_full_width_year:
  "valid_birthdate (ustr ''30.09.'' @ [0xFF12, 0xFF10, 0xFF10, 0xFF15])"
  by code_simp

lemma valid_birthdate_examples:
  "valid_birthdate (ustr ''30.09.2005'') \<and> \<not> valid_birthdate (ustr ''31.02.2005'') \<and>
   \<not> valid_birthdate (ustr ''2005-09-30'')"
  by code_simp

lemma isdigit_arabic: "py_isdigit [0x661, 0x662] \<and> py_int [0x661, 0x662] = Some 12"
  by code_simp

lemma isdigit_superscript: "py_isdigit [0xB2] \<and> py_int [0xB2] = None"
  by code_simp

lemma isdigit_after_strip: "py_isdigit (py_strip ([0xA0] @ ustr ''20020'' @ [0xA0]))"
  by code_simp

end
